theory Spec2Isabelle
  imports Main
begin

section \<open>Data model\<close>

text \<open>
  The two reconcilers of the lifecycle controller
  (\<^verbatim>\<open>KeptnWorkloadInstanceReconciler\<close> and \<^verbatim>\<open>KeptnAppVersionReconciler\<close>) are embedded
  as pure functions. Everything a reconciler does besides returning is explicit:
  the entity behind the pointer is passed in and returned, the span cache
  \<^verbatim>\<open>bindCRDSpan\<close> is passed in and returned, and events, metric samples, status writes,
  span operations and callback invocations are collected, in program order, in a list of
  effects. Diagnostic logging through \<^verbatim>\<open>r.Log\<close> and span attributes are left out.
\<close>

type_synonym error = string

type_synonym Time = nat

text \<open>
  Modelled from the spec: \<^verbatim>\<open>common.KeptnState\<close> and its predicates are declared in the
  package \<^verbatim>\<open>api/v1alpha1/common\<close>, which is not among the sources. The data model lists
  the phase status as the enumeration Pending, Progressing, Succeeded, Failed, and the
  status accessors as equality tests.
\<close>

datatype KeptnState = StatePending | StateProgressing | StateSucceeded | StateFailed

definition IsSucceeded :: "KeptnState \<Rightarrow> bool" where
  "IsSucceeded k = (k = StateSucceeded)"

definition IsFailed :: "KeptnState \<Rightarrow> bool" where
  "IsFailed k = (k = StateFailed)"

text \<open>
  Modelled from the spec: \<^verbatim>\<open>common.KeptnPhaseType\<close>, an immutable value with a short and
  a long name. The catalogue of phases is a constant table of the same absent package; the
  reconcilers take it as a parameter.
\<close>

record KeptnPhaseType =
  ShortName :: string
  LongName :: string

record KeptnPhases =
  PhaseWorkloadPreDeployment :: KeptnPhaseType
  PhaseWorkloadDeployment :: KeptnPhaseType
  PhaseWorkloadPostDeployment :: KeptnPhaseType
  PhaseAppPreDeployment :: KeptnPhaseType
  PhaseAppPreEvaluation :: KeptnPhaseType
  PhaseAppDeployment :: KeptnPhaseType
  PhaseAppPostDeployment :: KeptnPhaseType
  PhaseAppPostEvaluation :: KeptnPhaseType
  PhaseCompleted :: KeptnPhaseType

datatype CheckType =
  PreDeploymentCheckType | PostDeploymentCheckType
  | PreDeploymentEvaluationCheckType | PostDeploymentEvaluationCheckType

text \<open>
  \<^verbatim>\<open>ctrl.Result\<close>: the delay is kept in seconds, \<open>0\<close> being the zero value of an
  unset \<^verbatim>\<open>RequeueAfter\<close>.
\<close>

record Result =
  Requeue :: bool
  RequeueAfter :: nat

text \<open>
  Modelled from the spec: the workload instance (\<^verbatim>\<open>klcv1alpha1.KeptnWorkloadInstance\<close>).
  Fields of \<^verbatim>\<open>Spec\<close> and \<^verbatim>\<open>Status\<close> are flattened into one record; the prefix
  \<open>wli_\<close> keeps them apart from those of the application version. A time is
  \<open>None\<close> while it has Go's zero value.
\<close>

record KeptnWorkloadInstance =
  wli_Namespace :: string
  wli_Name :: string
  wli_AppName :: string
  wli_WorkloadName :: string
  wli_Version :: string
  wli_PreviousVersion :: string
  wli_TraceId :: "(string \<times> string) list"
  wli_PreDeploymentStatus :: KeptnState
  wli_PreDeploymentEvaluationStatus :: KeptnState
  wli_DeploymentStatus :: KeptnState
  wli_PostDeploymentStatus :: KeptnState
  wli_PostDeploymentEvaluationStatus :: KeptnState
  wli_CurrentPhase :: string
  wli_Status :: KeptnState
  wli_StartTime :: "Time option"
  wli_EndTime :: "Time option"

record KeptnWorkloadRef =
  ref_Name :: string
  ref_Version :: string

text \<open>
  Modelled from the spec: the application version (\<^verbatim>\<open>klcv1alpha1.KeptnAppVersion\<close>).
  \<open>appv_WorkloadStatus\<close> holds the states reported by the constituent workload
  instances.
\<close>

record KeptnAppVersion =
  appv_Namespace :: string
  appv_Name :: string
  appv_AppName :: string
  appv_Version :: string
  appv_PreviousVersion :: string
  appv_Workloads :: "KeptnWorkloadRef list"
  appv_TraceId :: "(string \<times> string) list"
  appv_PreDeploymentStatus :: KeptnState
  appv_PreDeploymentEvaluationStatus :: KeptnState
  appv_WorkloadStatus :: "KeptnState list"
  appv_PostDeploymentStatus :: KeptnState
  appv_PostDeploymentEvaluationStatus :: KeptnState
  appv_CurrentPhase :: string
  appv_Status :: KeptnState
  appv_StartTime :: "Time option"
  appv_EndTime :: "Time option"

text \<open>The zero value \<^verbatim>\<open>klcv1alpha1.KeptnAppVersion{}\<close>.\<close>

definition empty_KeptnAppVersion :: KeptnAppVersion where
  "empty_KeptnAppVersion =
     \<lparr>appv_Namespace = [], appv_Name = [], appv_AppName = [], appv_Version = [],
      appv_PreviousVersion = [], appv_Workloads = [], appv_TraceId = [],
      appv_PreDeploymentStatus = StatePending,
      appv_PreDeploymentEvaluationStatus = StatePending,
      appv_WorkloadStatus = [],
      appv_PostDeploymentStatus = StatePending,
      appv_PostDeploymentEvaluationStatus = StatePending,
      appv_CurrentPhase = [], appv_Status = StatePending,
      appv_StartTime = None, appv_EndTime = None\<rparr>"

subsection \<open>Effects and outcomes\<close>

datatype SpanCode = CodeOk | CodeError

type_synonym Span = string

text \<open>
  A key of the span cache. The source formats the components into one string with
  \<^verbatim>\<open>fmt.Sprintf\<close>; the model keeps the components themselves.
\<close>

type_synonym span_key = "(string \<times> string) list \<times> string list"

type_synonym span_cache = "span_key \<Rightarrow> Span option"

text \<open>
  \<open>Event ty phase reason msg\<close> is one call of \<^verbatim>\<open>Recorder.Event\<close>: the reason the source
  passes is the phase's short name followed by the short reason, kept apart here.
  \<open>StatusUpdate\<close> is one call of \<^verbatim>\<open>Status().Update\<close>, \<open>ReconcilePhase\<close> one
  invocation of a phase callback with the entity it receives, \<open>CounterAdd\<close> and
  \<open>DurationRecord\<close> one sample of the counter and of the duration meter (the end and
  start time whose difference is recorded).
\<close>

datatype 'e effect =
  Event string string string string
  | StatusUpdate 'e
  | ReconcilePhase KeptnPhaseType 'e
  | CounterAdd 'e
  | DurationRecord "Time option" "Time option" 'e
  | SpanStart Span
  | SpanAddEvent Span string
  | SpanSetStatus Span SpanCode string
  | SpanEnd Span

record 'e outcome =
  res :: Result
  err :: "error option"
  obj :: 'e
  spans :: span_cache
  effects :: "'e effect list"

text \<open>Observations on a list of effects.\<close>

fun callbacks :: "'e effect list \<Rightarrow> (KeptnPhaseType \<times> 'e) list" where
  "callbacks [] = []"
| "callbacks (ReconcilePhase p w # es) = (p, w) # callbacks es"
| "callbacks (_ # es) = callbacks es"

fun status_writes :: "'e effect list \<Rightarrow> 'e list" where
  "status_writes [] = []"
| "status_writes (StatusUpdate w # es) = w # status_writes es"
| "status_writes (_ # es) = status_writes es"

fun counter_samples :: "'e effect list \<Rightarrow> 'e list" where
  "counter_samples [] = []"
| "counter_samples (CounterAdd w # es) = w # counter_samples es"
| "counter_samples (_ # es) = counter_samples es"

fun duration_samples :: "'e effect list \<Rightarrow> (Time option \<times> Time option) list" where
  "duration_samples [] = []"
| "duration_samples (DurationRecord e s w # es) = (e, s) # duration_samples es"
| "duration_samples (_ # es) = duration_samples es"

fun events :: "'e effect list \<Rightarrow> (string \<times> string) list" where
  "events [] = []"
| "events (Event ty phase reason msg # es) = (ty, reason) # events es"
| "events (_ # es) = events es"

definition prepend :: "'e effect list \<Rightarrow> 'e outcome \<Rightarrow> 'e outcome" where
  "prepend es out = out\<lparr>effects := es @ effects out\<rparr>"

fun span_starts :: "'e effect list \<Rightarrow> Span list" where
  "span_starts [] = []"
| "span_starts (SpanStart s # es) = s # span_starts es"
| "span_starts (_ # es) = span_starts es"

section \<open>The workload-instance reconciler\<close>

subsection \<open>Accessors of the entity\<close>

text \<open>
  Modelled from the spec: the methods of \<^verbatim>\<open>KeptnWorkloadInstance\<close> live with the type,
  outside the sources. \<open>StartTime\<close> is set on the first reconcile, once; \<open>EndTime\<close> is
  stamped if unset; each status accessor compares one status field.
\<close>

definition wli_SetStartTime :: "Time \<Rightarrow> KeptnWorkloadInstance \<Rightarrow> KeptnWorkloadInstance" where
  "wli_SetStartTime now w =
     (if wli_StartTime w = None then w\<lparr>wli_StartTime := Some now\<rparr> else w)"

definition wli_SetEndTime :: "Time \<Rightarrow> KeptnWorkloadInstance \<Rightarrow> KeptnWorkloadInstance" where
  "wli_SetEndTime now w =
     (if wli_EndTime w = None then w\<lparr>wli_EndTime := Some now\<rparr> else w)"

definition wli_IsEndTimeSet :: "KeptnWorkloadInstance \<Rightarrow> bool" where
  "wli_IsEndTimeSet w = (wli_EndTime w \<noteq> None)"

definition wli_IsPreDeploymentSucceeded :: "KeptnWorkloadInstance \<Rightarrow> bool" where
  "wli_IsPreDeploymentSucceeded w = IsSucceeded (wli_PreDeploymentStatus w)"

definition wli_IsPreDeploymentFailed :: "KeptnWorkloadInstance \<Rightarrow> bool" where
  "wli_IsPreDeploymentFailed w = IsFailed (wli_PreDeploymentStatus w)"

definition wli_IsPreDeploymentEvaluationSucceeded :: "KeptnWorkloadInstance \<Rightarrow> bool" where
  "wli_IsPreDeploymentEvaluationSucceeded w = IsSucceeded (wli_PreDeploymentEvaluationStatus w)"

definition wli_IsPreDeploymentEvaluationFailed :: "KeptnWorkloadInstance \<Rightarrow> bool" where
  "wli_IsPreDeploymentEvaluationFailed w = IsFailed (wli_PreDeploymentEvaluationStatus w)"

definition wli_IsDeploymentSucceeded :: "KeptnWorkloadInstance \<Rightarrow> bool" where
  "wli_IsDeploymentSucceeded w = IsSucceeded (wli_DeploymentStatus w)"

definition wli_IsDeploymentFailed :: "KeptnWorkloadInstance \<Rightarrow> bool" where
  "wli_IsDeploymentFailed w = IsFailed (wli_DeploymentStatus w)"

definition wli_IsPostDeploymentSucceeded :: "KeptnWorkloadInstance \<Rightarrow> bool" where
  "wli_IsPostDeploymentSucceeded w = IsSucceeded (wli_PostDeploymentStatus w)"

definition wli_IsPostDeploymentFailed :: "KeptnWorkloadInstance \<Rightarrow> bool" where
  "wli_IsPostDeploymentFailed w = IsFailed (wli_PostDeploymentStatus w)"

definition wli_IsPostDeploymentEvaluationSucceeded :: "KeptnWorkloadInstance \<Rightarrow> bool" where
  "wli_IsPostDeploymentEvaluationSucceeded w = IsSucceeded (wli_PostDeploymentEvaluationStatus w)"

definition wli_IsPostDeploymentEvaluationFailed :: "KeptnWorkloadInstance \<Rightarrow> bool" where
  "wli_IsPostDeploymentEvaluationFailed w = IsFailed (wli_PostDeploymentEvaluationStatus w)"

subsection \<open>The environment of one reconcile\<close>

datatype 'e GetResult = GetNotFound | GetError error | GetOk 'e

text \<open>
  What the reconciler consumes from outside: the store (\<^verbatim>\<open>Get\<close>, \<^verbatim>\<open>List\<close> in a
  namespace, \<^verbatim>\<open>Status().Update\<close>), the clock, the phase callbacks, which receive the
  entity behind the pointer and may change it, and \<^verbatim>\<open>semver.Compare\<close> of the external
  module \<^verbatim>\<open>golang.org/x/mod/semver\<close>.
\<close>

record wli_env =
  wli_Get :: "KeptnWorkloadInstance GetResult"
  wli_List :: "string \<Rightarrow> error + KeptnAppVersion list"
  wli_Update :: "KeptnWorkloadInstance \<Rightarrow> error option"
  wli_now :: Time
  wli_Compare :: "string \<Rightarrow> string \<Rightarrow> int"
  wli_reconcilePrePostDeployment ::
    "KeptnWorkloadInstance \<Rightarrow> CheckType \<Rightarrow> (KeptnState \<times> error option) \<times> KeptnWorkloadInstance"
  wli_reconcilePrePostEvaluation ::
    "KeptnWorkloadInstance \<Rightarrow> CheckType \<Rightarrow> (KeptnState \<times> error option) \<times> KeptnWorkloadInstance"
  wli_reconcileDeployment ::
    "KeptnWorkloadInstance \<Rightarrow> (KeptnState \<times> error option) \<times> KeptnWorkloadInstance"

subsection \<open>Events and spans\<close>

definition wli_recordEvent ::
  "KeptnPhaseType \<Rightarrow> string \<Rightarrow> KeptnWorkloadInstance \<Rightarrow> string \<Rightarrow> string
   \<Rightarrow> KeptnWorkloadInstance effect" where
  "wli_recordEvent phase eventType w shortReason longReason =
     Event eventType (ShortName phase) shortReason
       (LongName phase @ '' '' @ longReason @ '' / Namespace: '' @ wli_Namespace w
        @ '', Name: '' @ wli_Name w @ '', Version: '' @ wli_Version w @ '' '')"

definition wli_getSpanName :: "KeptnWorkloadInstance \<Rightarrow> string \<Rightarrow> span_key" where
  "wli_getSpanName w phase =
     (wli_TraceId w, [wli_AppName w, wli_WorkloadName w, wli_Version w, phase])"

definition wli_getSpan ::
  "span_cache \<Rightarrow> KeptnWorkloadInstance \<Rightarrow> string
   \<Rightarrow> span_cache \<times> Span \<times> KeptnWorkloadInstance effect list" where
  "wli_getSpan r w phase =
     (let wliName = wli_getSpanName w phase;
          spanName = wli_WorkloadName w @ ''/'' @ phase
      in case r wliName of
           Some span \<Rightarrow> (r, span, [])
         | None \<Rightarrow> (r(wliName \<mapsto> spanName), spanName, [SpanStart spanName]))"

definition wli_unbindSpan :: "span_cache \<Rightarrow> KeptnWorkloadInstance \<Rightarrow> string \<Rightarrow> span_cache" where
  "wli_unbindSpan r w phase = r(wli_getSpanName w phase := None)"

subsection \<open>The phase driver\<close>

definition wli_handlePhase ::
  "wli_env \<Rightarrow> span_cache \<Rightarrow> KeptnWorkloadInstance \<Rightarrow> KeptnPhaseType \<Rightarrow> Span
   \<Rightarrow> (KeptnWorkloadInstance \<Rightarrow> bool)
   \<Rightarrow> (KeptnWorkloadInstance \<Rightarrow> (KeptnState \<times> error option) \<times> KeptnWorkloadInstance)
   \<Rightarrow> KeptnWorkloadInstance outcome" where
  "wli_handlePhase env r w phase span phaseFailed reconcilePhase =
     (let oldstate = wli_Status w;
          oldPhase = wli_CurrentPhase w;
          w1 = w\<lparr>wli_CurrentPhase := ShortName phase\<rparr>;
          (r1, spanAppTrace, e1) = wli_getSpan r w1 (ShortName phase)
      in if phaseFailed w1 then
           \<lparr>res = \<lparr>Requeue = True, RequeueAfter = 60\<rparr>, err = None, obj = w1, spans = r1,
            effects = e1 @ [wli_recordEvent phase ''Warning'' w1 ''Failed'' ''has failed'']\<rparr>
         else
           (case reconcilePhase w1 of
              ((state, Some e), w2) \<Rightarrow>
                \<lparr>res = \<lparr>Requeue = True, RequeueAfter = 0\<rparr>, err = Some e, obj = w2, spans = r1,
                 effects = e1 @
                   [ReconcilePhase phase w1,
                    SpanAddEvent spanAppTrace (LongName phase @ '' could not get reconciled''),
                    wli_recordEvent phase ''Warning'' w2 ''ReconcileErrored''
                      ''could not get reconciled'',
                    SpanSetStatus span CodeError e]\<rparr>
            | ((state, None), w2) \<Rightarrow>
                (let (w3, r3, e3, overallStateUpdated) =
                       (if IsSucceeded state then
                          (w2, wli_unbindSpan r1 w2 (ShortName phase),
                           [SpanAddEvent spanAppTrace (LongName phase @ '' has succeeded''),
                            SpanSetStatus spanAppTrace CodeOk ''Succeeded'',
                            SpanEnd spanAppTrace,
                            wli_recordEvent phase ''Normal'' w2 ''Succeeded'' ''has succeeded''],
                           False)
                        else if IsFailed state then
                          (let wf = wli_SetEndTime (wli_now env) (w2\<lparr>wli_Status := StateFailed\<rparr>)
                           in (wf, wli_unbindSpan r1 wf (ShortName phase),
                               [wli_recordEvent phase ''Warning'' w2 ''Failed'' ''has failed'',
                                CounterAdd wf,
                                SpanAddEvent spanAppTrace (LongName phase @ '' has failed''),
                                SpanSetStatus spanAppTrace CodeError ''Failed'',
                                SpanEnd spanAppTrace],
                               True))
                        else
                          (let wp = (if oldstate \<noteq> StateProgressing
                                     then w2\<lparr>wli_Status := StateProgressing\<rparr> else w2)
                           in (wp, r1,
                               [SpanAddEvent spanAppTrace (LongName phase @ '' not finished''),
                                wli_recordEvent phase ''Warning'' wp ''NotFinished''
                                  ''has not finished''],
                               oldstate \<noteq> StateProgressing)));
                     (r4, e4, overallStateUpdated') =
                       (if oldPhase \<noteq> wli_CurrentPhase w3 then
                          (let (r', s', e') = wli_getSpan r3 w3 (wli_CurrentPhase w3)
                           in (r', e', True))
                        else (r3, [], overallStateUpdated))
                 in \<lparr>res = \<lparr>Requeue = True, RequeueAfter = 5\<rparr>, err = None, obj = w3, spans = r4,
                     effects = e1 @ [ReconcilePhase phase w1] @ e3 @ e4 @
                       (if overallStateUpdated' then [StatusUpdate w3] else [])\<rparr>)))"

subsection \<open>The App-Version Resolver\<close>

text \<open>
  The two nested loops of \<^verbatim>\<open>getAppVersionForWorkloadInstance\<close>: the inner one runs over
  the workloads of one application version, the outer one over the listed application
  versions; \<open>latestVersion\<close> is the variable both update. \<open>wli_newer\<close> is the innermost
  conditional, which assigns to \<open>latestVersion\<close> for a workload that matches.
\<close>

definition wli_newer ::
  "(string \<Rightarrow> string \<Rightarrow> int) \<Rightarrow> KeptnAppVersion \<Rightarrow> KeptnAppVersion \<Rightarrow> KeptnAppVersion" where
  "wli_newer cmp latestVersion app =
     (if appv_Version latestVersion = [] then app
      else if cmp (appv_Version latestVersion) (appv_Version app) < 0 then app
      else latestVersion)"

fun wli_scanWorkloads ::
  "(string \<Rightarrow> string \<Rightarrow> int) \<Rightarrow> KeptnWorkloadInstance \<Rightarrow> KeptnAppVersion
   \<Rightarrow> KeptnWorkloadRef list \<Rightarrow> KeptnAppVersion \<Rightarrow> KeptnAppVersion" where
  "wli_scanWorkloads cmp wli app [] latestVersion = latestVersion"
| "wli_scanWorkloads cmp wli app (appWorkload # rest) latestVersion =
     wli_scanWorkloads cmp wli app rest
       (let workloadName = appv_AppName app @ ''-'' @ ref_Name appWorkload
        in if ref_Version appWorkload = wli_Version wli \<and> workloadName = wli_WorkloadName wli
           then wli_newer cmp latestVersion app
           else latestVersion)"

fun wli_scanApps ::
  "(string \<Rightarrow> string \<Rightarrow> int) \<Rightarrow> KeptnWorkloadInstance \<Rightarrow> KeptnAppVersion list
   \<Rightarrow> KeptnAppVersion \<Rightarrow> KeptnAppVersion" where
  "wli_scanApps cmp wli [] latestVersion = latestVersion"
| "wli_scanApps cmp wli (app # rest) latestVersion =
     wli_scanApps cmp wli rest
       (if appv_AppName app = wli_AppName wli
        then wli_scanWorkloads cmp wli app (appv_Workloads app) latestVersion
        else latestVersion)"

definition wli_getAppVersionForWorkloadInstance ::
  "wli_env \<Rightarrow> KeptnWorkloadInstance \<Rightarrow> bool \<times> KeptnAppVersion \<times> error option" where
  "wli_getAppVersionForWorkloadInstance env wli =
     (case wli_List env (wli_Namespace wli) of
        Inl e \<Rightarrow> (False, empty_KeptnAppVersion, Some e)
      | Inr apps \<Rightarrow>
          (let latestVersion = wli_scanApps (wli_Compare env) wli apps empty_KeptnAppVersion
           in if appv_Version latestVersion = [] then (False, empty_KeptnAppVersion, None)
              else (True, latestVersion, None)))"

text \<open>
  In the words of the spec: an application version matches a workload instance when its
  application name is the instance's and its workload set has an entry whose composite name
  and version are the instance's.
\<close>

definition wli_matches :: "KeptnWorkloadInstance \<Rightarrow> KeptnAppVersion \<Rightarrow> bool" where
  "wli_matches wli app =
     (appv_AppName app = wli_AppName wli \<and>
      list_ex (\<lambda>aw. ref_Version aw = wli_Version wli \<and>
                     appv_AppName app @ ''-'' @ ref_Name aw = wli_WorkloadName wli)
        (appv_Workloads app))"

subsection \<open>The comparison of versions\<close>

text \<open>
  The resolver compares versions with \<^verbatim>\<open>Compare\<close> of the module
  \<^verbatim>\<open>golang.org/x/mod/semver\<close>, imported at the head of \<^verbatim>\<open>controller.go\<close>. The module
  is not part of the repository; its functions are written here after the module's own
  source, under its names with the prefix \<open>semver_\<close>. A version is valid only in the form
  \<^verbatim>\<open>vMAJOR[.MINOR[.PATCH[-PRERELEASE][+BUILD]]]\<close>, with the leading \<^verbatim>\<open>v\<close>; an invalid
  version is below every valid one, and all invalid versions compare equal.
  \<open>semver_less\<close> is Go's \<^verbatim>\<open><\<close> on strings, the order of the bytes;
  \<open>semver_scanPrerelease\<close>, \<open>semver_scanBuild\<close> and
  \<open>semver_comparePrereleaseLoop\<close> are the loops of \<^verbatim>\<open>parsePrerelease\<close>,
  \<^verbatim>\<open>parseBuild\<close> and \<^verbatim>\<open>comparePrerelease\<close>.
\<close>

definition semver_isDigit :: "char \<Rightarrow> bool" where
  "semver_isDigit c = (c \<in> set ''0123456789'')"

definition semver_isIdentChar :: "char \<Rightarrow> bool" where
  "semver_isIdentChar c =
     (c \<in> set ''ABCDEFGHIJKLMNOPQRSTUVWXYZabcdefghijklmnopqrstuvwxyz0123456789-'')"

fun semver_less :: "string \<Rightarrow> string \<Rightarrow> bool" where
  "semver_less [] [] = False"
| "semver_less [] (d # ds) = True"
| "semver_less (c # cs) [] = False"
| "semver_less (c # cs) (d # ds) =
     (if (of_char c :: nat) < of_char d then True
      else if (of_char d :: nat) < of_char c then False
      else semver_less cs ds)"

definition semver_isBadNum :: "string \<Rightarrow> bool" where
  "semver_isBadNum v = (list_all semver_isDigit v \<and> 1 < length v \<and> hd v = CHR ''0'')"

definition semver_isNum :: "string \<Rightarrow> bool" where
  "semver_isNum v = list_all semver_isDigit v"

definition semver_parseInt :: "string \<Rightarrow> (string \<times> string) option" where
  "semver_parseInt v =
     (case v of
        [] \<Rightarrow> None
      | c # cs \<Rightarrow>
          if \<not> semver_isDigit c then None
          else if c = CHR ''0'' \<and> length (takeWhile semver_isDigit v) \<noteq> 1 then None
          else Some (takeWhile semver_isDigit v, dropWhile semver_isDigit v))"

fun semver_scanPrerelease :: "string \<Rightarrow> string \<Rightarrow> string \<Rightarrow> (string \<times> string) option" where
  "semver_scanPrerelease t ident [] =
     (if ident = [] \<or> semver_isBadNum ident then None else Some (t, []))"
| "semver_scanPrerelease t ident (c # cs) =
     (if c = CHR ''+'' then
        (if ident = [] \<or> semver_isBadNum ident then None else Some (t, c # cs))
      else if \<not> semver_isIdentChar c \<and> c \<noteq> CHR ''.'' then None
      else if c = CHR ''.'' then
        (if ident = [] \<or> semver_isBadNum ident then None
         else semver_scanPrerelease (t @ [c]) [] cs)
      else semver_scanPrerelease (t @ [c]) (ident @ [c]) cs)"

definition semver_parsePrerelease :: "string \<Rightarrow> (string \<times> string) option" where
  "semver_parsePrerelease v =
     (case v of
        [] \<Rightarrow> None
      | c # cs \<Rightarrow> if c \<noteq> CHR ''-'' then None else semver_scanPrerelease [c] [] cs)"

fun semver_scanBuild :: "string \<Rightarrow> string \<Rightarrow> string \<Rightarrow> (string \<times> string) option" where
  "semver_scanBuild t ident [] = (if ident = [] then None else Some (t, []))"
| "semver_scanBuild t ident (c # cs) =
     (if \<not> semver_isIdentChar c \<and> c \<noteq> CHR ''.'' then None
      else if c = CHR ''.'' then
        (if ident = [] then None else semver_scanBuild (t @ [c]) [] cs)
      else semver_scanBuild (t @ [c]) (ident @ [c]) cs)"

definition semver_parseBuild :: "string \<Rightarrow> (string \<times> string) option" where
  "semver_parseBuild v =
     (case v of
        [] \<Rightarrow> None
      | c # cs \<Rightarrow> if c \<noteq> CHR ''+'' then None else semver_scanBuild [c] [] cs)"

record semver_parsed =
  semver_major :: string
  semver_minor :: string
  semver_patch :: string
  semver_short :: string
  semver_prerelease :: string
  semver_build :: string

definition semver_parse :: "string \<Rightarrow> semver_parsed option" where
  "semver_parse v =
     (case v of
        [] \<Rightarrow> None
      | c # v1 \<Rightarrow>
          if c \<noteq> CHR ''v'' then None
          else
            (case semver_parseInt v1 of
               None \<Rightarrow> None
             | Some (major, v2) \<Rightarrow>
                 if v2 = [] then
                   Some \<lparr>semver_major = major, semver_minor = ''0'', semver_patch = ''0'',
                         semver_short = ''.0.0'', semver_prerelease = [], semver_build = []\<rparr>
                 else if hd v2 \<noteq> CHR ''.'' then None
                 else
                   (case semver_parseInt (tl v2) of
                      None \<Rightarrow> None
                    | Some (minor, v3) \<Rightarrow>
                        if v3 = [] then
                          Some \<lparr>semver_major = major, semver_minor = minor, semver_patch = ''0'',
                                semver_short = ''.0'', semver_prerelease = [], semver_build = []\<rparr>
                        else if hd v3 \<noteq> CHR ''.'' then None
                        else
                          (case semver_parseInt (tl v3) of
                             None \<Rightarrow> None
                           | Some (patch, v4) \<Rightarrow>
                               (case (if v4 \<noteq> [] \<and> hd v4 = CHR ''-''
                                      then semver_parsePrerelease v4 else Some ([], v4)) of
                                  None \<Rightarrow> None
                                | Some (prerelease, v5) \<Rightarrow>
                                    (case (if v5 \<noteq> [] \<and> hd v5 = CHR ''+''
                                           then semver_parseBuild v5 else Some ([], v5)) of
                                       None \<Rightarrow> None
                                     | Some (build, v6) \<Rightarrow>
                                         if v6 \<noteq> [] then None
                                         else
                                           Some \<lparr>semver_major = major, semver_minor = minor,
                                                 semver_patch = patch, semver_short = [],
                                                 semver_prerelease = prerelease,
                                                 semver_build = build\<rparr>))))))"

definition semver_compareInt :: "string \<Rightarrow> string \<Rightarrow> int" where
  "semver_compareInt x y =
     (if x = y then 0
      else if length x < length y then - 1
      else if length x > length y then 1
      else if semver_less x y then - 1 else 1)"

function semver_comparePrereleaseLoop :: "string \<Rightarrow> string \<Rightarrow> int" where
  "semver_comparePrereleaseLoop x y =
     (if x \<noteq> [] \<and> y \<noteq> [] then
        (if takeWhile (\<lambda>c. c \<noteq> CHR ''.'') (tl x) \<noteq> takeWhile (\<lambda>c. c \<noteq> CHR ''.'') (tl y) then
           (let dx = takeWhile (\<lambda>c. c \<noteq> CHR ''.'') (tl x);
                dy = takeWhile (\<lambda>c. c \<noteq> CHR ''.'') (tl y);
                ix = semver_isNum dx; iy = semver_isNum dy
            in if ix \<noteq> iy then (if ix then - 1 else 1)
               else if ix \<and> length dx < length dy then - 1
               else if ix \<and> length dx > length dy then 1
               else if semver_less dx dy then - 1 else 1)
         else semver_comparePrereleaseLoop (dropWhile (\<lambda>c. c \<noteq> CHR ''.'') (tl x))
                (dropWhile (\<lambda>c. c \<noteq> CHR ''.'') (tl y)))
      else if x = [] then - 1 else 1)"
  by pat_completeness auto
termination
proof (relation "measure (\<lambda>(x, y). length x)")
  show "wf (measure (\<lambda>(x, y). length x))" by simp
next
  fix x y :: string
  assume "x \<noteq> [] \<and> y \<noteq> []"
  then have "length (dropWhile (\<lambda>c. c \<noteq> CHR ''.'') (tl x)) < length x"
    using length_dropWhile_le [of "\<lambda>c. c \<noteq> CHR ''.''" "tl x"] by (cases x) auto
  then show "((dropWhile (\<lambda>c. c \<noteq> CHR ''.'') (tl x), dropWhile (\<lambda>c. c \<noteq> CHR ''.'') (tl y)), x, y)
             \<in> measure (\<lambda>(x, y). length x)"
    by simp
qed

declare semver_comparePrereleaseLoop.simps [simp del]

definition semver_comparePrerelease :: "string \<Rightarrow> string \<Rightarrow> int" where
  "semver_comparePrerelease x y =
     (if x = y then 0
      else if x = [] then 1
      else if y = [] then - 1
      else semver_comparePrereleaseLoop x y)"

definition semver_Compare :: "string \<Rightarrow> string \<Rightarrow> int" where
  "semver_Compare v w =
     (case (semver_parse v, semver_parse w) of
        (None, None) \<Rightarrow> 0
      | (None, Some pw) \<Rightarrow> - 1
      | (Some pv, None) \<Rightarrow> 1
      | (Some pv, Some pw) \<Rightarrow>
          if semver_compareInt (semver_major pv) (semver_major pw) \<noteq> 0
          then semver_compareInt (semver_major pv) (semver_major pw)
          else if semver_compareInt (semver_minor pv) (semver_minor pw) \<noteq> 0
          then semver_compareInt (semver_minor pv) (semver_minor pw)
          else if semver_compareInt (semver_patch pv) (semver_patch pw) \<noteq> 0
          then semver_compareInt (semver_patch pv) (semver_patch pw)
          else semver_comparePrerelease (semver_prerelease pv) (semver_prerelease pw))"

subsection \<open>Reconcile\<close>

text \<open>The zero value \<^verbatim>\<open>&klcv1alpha1.KeptnWorkloadInstance{}\<close> that \<^verbatim>\<open>Get\<close> fills.\<close>

definition empty_KeptnWorkloadInstance :: KeptnWorkloadInstance where
  "empty_KeptnWorkloadInstance =
     \<lparr>wli_Namespace = [], wli_Name = [], wli_AppName = [], wli_WorkloadName = [],
      wli_Version = [], wli_PreviousVersion = [], wli_TraceId = [],
      wli_PreDeploymentStatus = StatePending,
      wli_PreDeploymentEvaluationStatus = StatePending,
      wli_DeploymentStatus = StatePending,
      wli_PostDeploymentStatus = StatePending,
      wli_PostDeploymentEvaluationStatus = StatePending,
      wli_CurrentPhase = [], wli_Status = StatePending,
      wli_StartTime = None, wli_EndTime = None\<rparr>"

text \<open>
  \<^verbatim>\<open>Reconcile\<close> is one straight function in the source. It is cut here at its section
  comments, last section first; each part takes the entity as the previous part left it.
\<close>

text \<open>"WorkloadInstance is completed at this place".\<close>

definition wli_Completed ::
  "wli_env \<Rightarrow> KeptnPhases \<Rightarrow> span_cache \<Rightarrow> KeptnWorkloadInstance \<Rightarrow> Span
   \<Rightarrow> KeptnWorkloadInstance outcome" where
  "wli_Completed env ph r w span =
     (let phase = PhaseAppPostEvaluation ph;
          w1 = (if \<not> wli_IsEndTimeSet w
                then wli_SetEndTime (wli_now env)
                       (w\<lparr>wli_CurrentPhase := ShortName (PhaseCompleted ph),
                          wli_Status := StateSucceeded\<rparr>)
                else w)
      in case wli_Update env w1 of
           Some e \<Rightarrow>
             \<lparr>res = \<lparr>Requeue = True, RequeueAfter = 0\<rparr>, err = Some e, obj = w1, spans = r,
              effects = [StatusUpdate w1, SpanSetStatus span CodeError e]\<rparr>
         | None \<Rightarrow>
             \<lparr>res = \<lparr>Requeue = False, RequeueAfter = 0\<rparr>, err = None, obj = w1, spans = r,
              effects = [StatusUpdate w1, CounterAdd w1,
                         DurationRecord (wli_EndTime w1) (wli_StartTime w1) w1,
                         wli_recordEvent phase ''Normal'' w1 ''Finished'' ''is finished'']\<rparr>)"

text \<open>"Wait for post-evaluation checks of Workload".\<close>

definition wli_PostEvaluation ::
  "wli_env \<Rightarrow> KeptnPhases \<Rightarrow> span_cache \<Rightarrow> KeptnWorkloadInstance \<Rightarrow> Span
   \<Rightarrow> KeptnWorkloadInstance outcome" where
  "wli_PostEvaluation env ph r w span =
     (let phase = PhaseAppPostEvaluation ph;
          continue = (\<lambda>w. if \<not> wli_IsPostDeploymentEvaluationSucceeded w
                 then wli_handlePhase env r w phase span wli_IsPostDeploymentEvaluationFailed
                        (\<lambda>w. wli_reconcilePrePostEvaluation env w PostDeploymentEvaluationCheckType)
                 else wli_Completed env ph r w span)
      in if wli_PostDeploymentStatus w = StatePending then
           (let w1 = w\<lparr>wli_PostDeploymentStatus := StateProgressing\<rparr>
            in case wli_Update env w1 of
                 Some e \<Rightarrow>
                   \<lparr>res = \<lparr>Requeue = False, RequeueAfter = 0\<rparr>, err = Some e, obj = w1,
                    spans = r, effects = [StatusUpdate w1]\<rparr>
               | None \<Rightarrow> prepend [StatusUpdate w1] (continue w1))
         else continue w)"

text \<open>"Wait for post-deployment checks of Workload".\<close>

definition wli_PostDeployment ::
  "wli_env \<Rightarrow> KeptnPhases \<Rightarrow> span_cache \<Rightarrow> KeptnWorkloadInstance \<Rightarrow> Span
   \<Rightarrow> KeptnWorkloadInstance outcome" where
  "wli_PostDeployment env ph r w span =
     (let phase = PhaseWorkloadPostDeployment ph;
          continue = (\<lambda>w. if \<not> wli_IsPostDeploymentSucceeded w
                 then wli_handlePhase env r w phase span wli_IsPostDeploymentFailed
                        (\<lambda>w. wli_reconcilePrePostDeployment env w PostDeploymentCheckType)
                 else wli_PostEvaluation env ph r w span)
      in if wli_PostDeploymentStatus w = StatePending then
           (let w1 = w\<lparr>wli_PostDeploymentStatus := StateProgressing\<rparr>
            in case wli_Update env w1 of
                 Some e \<Rightarrow>
                   \<lparr>res = \<lparr>Requeue = False, RequeueAfter = 0\<rparr>, err = Some e, obj = w1,
                    spans = r, effects = [StatusUpdate w1]\<rparr>
               | None \<Rightarrow> prepend [StatusUpdate w1] (continue w1))
         else continue w)"

text \<open>"Wait for deployment of Workload".\<close>

definition wli_Deployment ::
  "wli_env \<Rightarrow> KeptnPhases \<Rightarrow> span_cache \<Rightarrow> KeptnWorkloadInstance \<Rightarrow> Span
   \<Rightarrow> KeptnWorkloadInstance outcome" where
  "wli_Deployment env ph r w span =
     (let phase = PhaseWorkloadDeployment ph;
          continue = (\<lambda>w. if \<not> wli_IsDeploymentSucceeded w
                 then wli_handlePhase env r w phase span wli_IsDeploymentFailed
                        (\<lambda>w. wli_reconcileDeployment env w)
                 else wli_PostDeployment env ph r w span)
      in if wli_DeploymentStatus w = StatePending then
           (let w1 = w\<lparr>wli_DeploymentStatus := StateProgressing\<rparr>
            in case wli_Update env w1 of
                 Some e \<Rightarrow>
                   \<lparr>res = \<lparr>Requeue = False, RequeueAfter = 0\<rparr>, err = Some e, obj = w1,
                    spans = r, effects = [StatusUpdate w1]\<rparr>
               | None \<Rightarrow> prepend [StatusUpdate w1] (continue w1))
         else continue w)"

text \<open>"Wait for pre-evaluation checks of Workload".\<close>

definition wli_PreEvaluation ::
  "wli_env \<Rightarrow> KeptnPhases \<Rightarrow> span_cache \<Rightarrow> KeptnWorkloadInstance \<Rightarrow> Span
   \<Rightarrow> KeptnWorkloadInstance outcome" where
  "wli_PreEvaluation env ph r w span =
     (let phase = PhaseAppPreEvaluation ph;
          continue = (\<lambda>w. if \<not> wli_IsPreDeploymentEvaluationSucceeded w
                 then wli_handlePhase env r w phase span wli_IsPreDeploymentEvaluationFailed
                        (\<lambda>w. wli_reconcilePrePostEvaluation env w PreDeploymentEvaluationCheckType)
                 else wli_Deployment env ph r w span)
      in if wli_PreDeploymentEvaluationStatus w = StatePending then
           (let w1 = w\<lparr>wli_PreDeploymentEvaluationStatus := StateProgressing\<rparr>
            in case wli_Update env w1 of
                 Some e \<Rightarrow>
                   \<lparr>res = \<lparr>Requeue = False, RequeueAfter = 0\<rparr>, err = Some e, obj = w1,
                    spans = r, effects = [StatusUpdate w1]\<rparr>
               | None \<Rightarrow> prepend [StatusUpdate w1] (continue w1))
         else continue w)"

text \<open>
  The block guarded by \<^verbatim>\<open>appVersion.Status.CurrentPhase == ""\<close>, where
  \<^verbatim>\<open>appVersion\<close> is the application version the gate resolved.
\<close>

definition wli_Started ::
  "span_cache \<Rightarrow> KeptnWorkloadInstance \<Rightarrow> KeptnAppVersion \<Rightarrow> KeptnPhaseType
   \<Rightarrow> span_cache \<times> KeptnWorkloadInstance effect list" where
  "wli_Started r w appVersion phase =
     (if appv_CurrentPhase appVersion = [] then
        (let (r', spanAppTrace, e') =
               wli_getSpan (wli_unbindSpan r w (ShortName phase)) w (ShortName phase)
         in (r', e' @
               [SpanAddEvent spanAppTrace ''WorkloadInstance Pre-Deployment Tasks started'',
                wli_recordEvent phase ''Normal'' w ''Started'' ''have started'']))
      else (r, []))"

text \<open>"Wait for pre-deployment checks of Workload", entered once the gate has cleared.\<close>

definition wli_PreDeployment ::
  "wli_env \<Rightarrow> KeptnPhases \<Rightarrow> span_cache \<Rightarrow> KeptnWorkloadInstance \<Rightarrow> KeptnAppVersion \<Rightarrow> Span
   \<Rightarrow> KeptnWorkloadInstance outcome" where
  "wli_PreDeployment env ph r w appVersion span =
     (let phase = PhaseWorkloadPreDeployment ph;
          w1 = (if wli_PreDeploymentStatus w = StatePending
                then w\<lparr>wli_PreDeploymentStatus := StateProgressing\<rparr> else w);
          w2 = (if length (wli_TraceId w1) < 1
                then w1\<lparr>wli_TraceId := appv_TraceId appVersion\<rparr> else w1);
          saveState = (wli_PreDeploymentStatus w = StatePending \<or> length (wli_TraceId w1) < 1);
          continue = (\<lambda>u::unit.
             let (r1, e1) = wli_Started r w2 appVersion phase
             in prepend e1
                  (if \<not> wli_IsPreDeploymentSucceeded w2
                   then wli_handlePhase env r1 w2 phase span wli_IsPreDeploymentFailed
                          (\<lambda>w. wli_reconcilePrePostDeployment env w PreDeploymentCheckType)
                   else wli_PreEvaluation env ph r1 w2 span))
      in if saveState then
           (case wli_Update env w2 of
              Some e \<Rightarrow>
                \<lparr>res = \<lparr>Requeue = False, RequeueAfter = 0\<rparr>, err = Some e, obj = w2,
                 spans = r, effects = [StatusUpdate w2]\<rparr>
            | None \<Rightarrow> prepend [StatusUpdate w2] (continue ()))
         else continue ())"

text \<open>
  The head of \<^verbatim>\<open>Reconcile\<close>: fetching the entity, the root span (ended by the deferred
  \<^verbatim>\<open>span.End()\<close> on every later return), the start time and the gate on the application
  version ("Wait for pre-evaluation checks of App").
\<close>

definition wli_Reconcile ::
  "wli_env \<Rightarrow> KeptnPhases \<Rightarrow> span_cache \<Rightarrow> KeptnWorkloadInstance outcome" where
  "wli_Reconcile env ph r =
     (case wli_Get env of
        GetNotFound \<Rightarrow>
          \<lparr>res = \<lparr>Requeue = False, RequeueAfter = 0\<rparr>, err = None,
           obj = empty_KeptnWorkloadInstance, spans = r, effects = []\<rparr>
      | GetError e \<Rightarrow>
          \<lparr>res = \<lparr>Requeue = False, RequeueAfter = 0\<rparr>,
           err = Some (''could not fetch KeptnWorkloadInstance: '' @ e),
           obj = empty_KeptnWorkloadInstance, spans = r, effects = []\<rparr>
      | GetOk workloadInstance \<Rightarrow>
          (let span = ''reconcile_workload_instance'';
               w = wli_SetStartTime (wli_now env) workloadInstance;
               phase = PhaseAppPreEvaluation ph;
               out =
                 (case wli_getAppVersionForWorkloadInstance env w of
                    (found, appVersion, Some e) \<Rightarrow>
                      \<lparr>res = \<lparr>Requeue = True, RequeueAfter = 10\<rparr>,
                       err = Some (''could not fetch AppVersion for KeptnWorkloadInstance: '' @ e),
                       obj = w, spans = r,
                       effects = [SpanSetStatus span CodeError e,
                                  wli_recordEvent phase ''Warning'' w ''GetAppVersionFailed''
                                    ''has failed since app could not be retrieved'']\<rparr>
                  | (False, appVersion, None) \<Rightarrow>
                      \<lparr>res = \<lparr>Requeue = True, RequeueAfter = 10\<rparr>,
                       err = Some ''could not find AppVersion for KeptnWorkloadInstance'',
                       obj = w, spans = r,
                       effects = [SpanSetStatus span CodeError ''app could not be found'',
                                  wli_recordEvent phase ''Warning'' w ''AppVersionNotFound''
                                    ''has failed since app could not be found'']\<rparr>
                  | (True, appVersion, None) \<Rightarrow>
                      (let appPreEvalStatus = appv_PreDeploymentEvaluationStatus appVersion
                       in if \<not> IsSucceeded appPreEvalStatus then
                            (if IsFailed appPreEvalStatus then
                               \<lparr>res = \<lparr>Requeue = True, RequeueAfter = 60\<rparr>, err = None,
                                obj = w, spans = r,
                                effects = [wli_recordEvent phase ''Warning'' w ''Failed''
                                             ''has failed since app has failed'']\<rparr>
                             else
                               \<lparr>res = \<lparr>Requeue = True, RequeueAfter = 20\<rparr>, err = None,
                                obj = w, spans = r,
                                effects = [wli_recordEvent phase ''Normal'' w ''NotFinished''
                                             ''Pre evaluations tasks for app not finished'']\<rparr>)
                          else wli_PreDeployment env ph r w appVersion span))
           in out\<lparr>effects := SpanStart span # effects out @ [SpanEnd span]\<rparr>))"

section \<open>The application-version reconciler\<close>

subsection \<open>Accessors of the entity\<close>

text \<open>
  Modelled from the spec: the methods of \<^verbatim>\<open>KeptnAppVersion\<close> live with the type, outside
  the sources. The workloads are succeeded when every constituent workload instance reports
  Succeeded, and failed when at least one reports Failed.
\<close>

definition appv_SetStartTime :: "Time \<Rightarrow> KeptnAppVersion \<Rightarrow> KeptnAppVersion" where
  "appv_SetStartTime now a =
     (if appv_StartTime a = None then a\<lparr>appv_StartTime := Some now\<rparr> else a)"

definition appv_SetEndTime :: "Time \<Rightarrow> KeptnAppVersion \<Rightarrow> KeptnAppVersion" where
  "appv_SetEndTime now a =
     (if appv_EndTime a = None then a\<lparr>appv_EndTime := Some now\<rparr> else a)"

definition appv_IsEndTimeSet :: "KeptnAppVersion \<Rightarrow> bool" where
  "appv_IsEndTimeSet a = (appv_EndTime a \<noteq> None)"

definition appv_IsPreDeploymentSucceeded :: "KeptnAppVersion \<Rightarrow> bool" where
  "appv_IsPreDeploymentSucceeded a = IsSucceeded (appv_PreDeploymentStatus a)"

definition appv_IsPreDeploymentFailed :: "KeptnAppVersion \<Rightarrow> bool" where
  "appv_IsPreDeploymentFailed a = IsFailed (appv_PreDeploymentStatus a)"

definition appv_IsPreDeploymentEvaluationSucceeded :: "KeptnAppVersion \<Rightarrow> bool" where
  "appv_IsPreDeploymentEvaluationSucceeded a = IsSucceeded (appv_PreDeploymentEvaluationStatus a)"

definition appv_IsPreDeploymentEvaluationFailed :: "KeptnAppVersion \<Rightarrow> bool" where
  "appv_IsPreDeploymentEvaluationFailed a = IsFailed (appv_PreDeploymentEvaluationStatus a)"

definition appv_AreWorkloadsSucceeded :: "KeptnAppVersion \<Rightarrow> bool" where
  "appv_AreWorkloadsSucceeded a = list_all IsSucceeded (appv_WorkloadStatus a)"

definition appv_AreWorkloadsFailed :: "KeptnAppVersion \<Rightarrow> bool" where
  "appv_AreWorkloadsFailed a = list_ex IsFailed (appv_WorkloadStatus a)"

definition appv_IsPostDeploymentSucceeded :: "KeptnAppVersion \<Rightarrow> bool" where
  "appv_IsPostDeploymentSucceeded a = IsSucceeded (appv_PostDeploymentStatus a)"

definition appv_IsPostDeploymentFailed :: "KeptnAppVersion \<Rightarrow> bool" where
  "appv_IsPostDeploymentFailed a = IsFailed (appv_PostDeploymentStatus a)"

definition appv_IsPostDeploymentEvaluationFailed :: "KeptnAppVersion \<Rightarrow> bool" where
  "appv_IsPostDeploymentEvaluationFailed a = IsFailed (appv_PostDeploymentEvaluationStatus a)"

subsection \<open>The environment of one reconcile\<close>

text \<open>
  The store, the clock and the phase callbacks. The accessor
  \<^verbatim>\<open>IsPostDeploymentEvaluationCompleted\<close>, which the spec does not describe, is taken as
  given.
\<close>

record appv_env =
  appv_Get :: "KeptnAppVersion GetResult"
  appv_Update :: "KeptnAppVersion \<Rightarrow> error option"
  appv_now :: Time
  appv_IsPostDeploymentEvaluationCompleted :: "KeptnAppVersion \<Rightarrow> bool"
  appv_reconcilePrePostDeployment ::
    "KeptnAppVersion \<Rightarrow> CheckType \<Rightarrow> (KeptnState \<times> error option) \<times> KeptnAppVersion"
  appv_reconcilePrePostEvaluation ::
    "KeptnAppVersion \<Rightarrow> CheckType \<Rightarrow> (KeptnState \<times> error option) \<times> KeptnAppVersion"
  appv_reconcileWorkloads ::
    "KeptnAppVersion \<Rightarrow> (KeptnState \<times> error option) \<times> KeptnAppVersion"

subsection \<open>Events and spans\<close>

definition appv_recordEvent ::
  "KeptnPhaseType \<Rightarrow> string \<Rightarrow> KeptnAppVersion \<Rightarrow> string \<Rightarrow> string
   \<Rightarrow> KeptnAppVersion effect" where
  "appv_recordEvent phase eventType a shortReason longReason =
     Event eventType (ShortName phase) shortReason
       (LongName phase @ '' '' @ longReason @ '' / Namespace: '' @ appv_Namespace a
        @ '', Name: '' @ appv_Name a @ '', Version: '' @ appv_Version a @ '' '')"

definition appv_getSpanName :: "KeptnAppVersion \<Rightarrow> string \<Rightarrow> span_key" where
  "appv_getSpanName appv phase =
     (appv_TraceId appv, [appv_AppName appv, appv_Version appv, phase])"

definition appv_getSpan ::
  "span_cache \<Rightarrow> KeptnAppVersion \<Rightarrow> string
   \<Rightarrow> span_cache \<times> Span \<times> KeptnAppVersion effect list" where
  "appv_getSpan r appv phase =
     (let appvName = appv_getSpanName appv phase
      in case r appvName of
           Some span \<Rightarrow> (r, span, [])
         | None \<Rightarrow> (r(appvName \<mapsto> phase), phase, [SpanStart phase]))"

definition appv_unbindSpan :: "span_cache \<Rightarrow> KeptnAppVersion \<Rightarrow> string \<Rightarrow> span_cache" where
  "appv_unbindSpan r appv phase = r(appv_getSpanName appv phase := None)"

subsection \<open>The phase driver\<close>

definition appv_handlePhase ::
  "appv_env \<Rightarrow> span_cache \<Rightarrow> KeptnAppVersion \<Rightarrow> KeptnPhaseType \<Rightarrow> Span
   \<Rightarrow> (KeptnAppVersion \<Rightarrow> bool)
   \<Rightarrow> (KeptnAppVersion \<Rightarrow> (KeptnState \<times> error option) \<times> KeptnAppVersion)
   \<Rightarrow> KeptnAppVersion outcome" where
  "appv_handlePhase env r a phase span phaseFailed reconcilePhase =
     (let oldStatus = appv_Status a;
          (r1, spanAppTrace, e1) = appv_getSpan r a (ShortName phase);
          oldPhase = appv_CurrentPhase a;
          a1 = a\<lparr>appv_CurrentPhase := ShortName phase\<rparr>
      in if phaseFailed a1 then
           \<lparr>res = \<lparr>Requeue = True, RequeueAfter = 60\<rparr>, err = None, obj = a1, spans = r1,
            effects = e1 @ [appv_recordEvent phase ''Warning'' a1 ''Failed'' ''has failed'']\<rparr>
         else
           (case reconcilePhase a1 of
              ((state, Some e), a2) \<Rightarrow>
                \<lparr>res = \<lparr>Requeue = True, RequeueAfter = 0\<rparr>, err = Some e, obj = a2, spans = r1,
                 effects = e1 @
                   [ReconcilePhase phase a1,
                    SpanAddEvent spanAppTrace (LongName phase @ '' could not get reconciled''),
                    appv_recordEvent phase ''Warning'' a2 ''ReconcileErrored''
                      ''could not get reconciled'',
                    SpanSetStatus span CodeError e]\<rparr>
            | ((state, None), a2) \<Rightarrow>
                (let (a3, r3, e3, newStatus) =
                       (if IsSucceeded state then
                          (a2, appv_unbindSpan r1 a2 (ShortName phase),
                           [SpanAddEvent spanAppTrace (LongName phase @ '' has succeeded''),
                            SpanSetStatus spanAppTrace CodeOk ''Succeeded'',
                            SpanEnd spanAppTrace,
                            appv_recordEvent phase ''Normal'' a2 ''Succeeded'' ''has succeeded''],
                           StateSucceeded)
                        else if IsFailed state then
                          (let af = appv_SetEndTime (appv_now env) a2
                           in (af, appv_unbindSpan r1 af (ShortName phase),
                               [CounterAdd af,
                                SpanAddEvent spanAppTrace (LongName phase @ '' has failed''),
                                SpanSetStatus spanAppTrace CodeError ''Failed'',
                                SpanEnd spanAppTrace,
                                appv_recordEvent phase ''Warning'' af ''Failed'' ''has failed''],
                               StateFailed))
                        else
                          (a2, r1,
                           [appv_recordEvent phase ''Warning'' a2 ''NotFinished''
                              ''has not finished''],
                           StateProgressing));
                     (r4, e4, statusUpdated) =
                       (if oldPhase \<noteq> appv_CurrentPhase a3 then
                          (let (r', s', e') = appv_getSpan r3 a3 (appv_CurrentPhase a3)
                           in (r', e', True))
                        else (r3, [], False));
                     a4 = (if oldStatus \<noteq> newStatus then a3\<lparr>appv_Status := newStatus\<rparr> else a3);
                     statusUpdated' = (statusUpdated \<or> oldStatus \<noteq> newStatus)
                 in \<lparr>res = \<lparr>Requeue = True, RequeueAfter = 5\<rparr>, err = None, obj = a4, spans = r4,
                     effects = e1 @ [ReconcilePhase phase a1] @ e3 @ e4 @
                       (if statusUpdated' then [StatusUpdate a4] else [])\<rparr>)))"

subsection \<open>Reconcile\<close>

text \<open>"AppVersion is completed at this place", with the event and the write before it.\<close>

definition appv_Completed ::
  "appv_env \<Rightarrow> KeptnPhases \<Rightarrow> span_cache \<Rightarrow> KeptnAppVersion \<Rightarrow> Span
   \<Rightarrow> KeptnAppVersion outcome" where
  "appv_Completed env ph r a span =
     (let phase = PhaseAppPostEvaluation ph;
          e0 = [appv_recordEvent phase ''Normal'' a ''Finished'' ''is finished'', StatusUpdate a]
      in case appv_Update env a of
           Some e \<Rightarrow>
             \<lparr>res = \<lparr>Requeue = True, RequeueAfter = 0\<rparr>, err = Some e, obj = a, spans = r,
              effects = e0 @ [SpanSetStatus span CodeError e]\<rparr>
         | None \<Rightarrow>
             (let a1 = (if \<not> appv_IsEndTimeSet a
                        then appv_SetEndTime (appv_now env)
                               (a\<lparr>appv_CurrentPhase := ShortName (PhaseCompleted ph)\<rparr>)
                        else a)
              in case appv_Update env a1 of
                   Some e \<Rightarrow>
                     \<lparr>res = \<lparr>Requeue = True, RequeueAfter = 0\<rparr>, err = Some e, obj = a1,
                      spans = r, effects = e0 @ [StatusUpdate a1]\<rparr>
                 | None \<Rightarrow>
                     \<lparr>res = \<lparr>Requeue = False, RequeueAfter = 0\<rparr>, err = None, obj = a1,
                      spans = r,
                      effects = e0 @ [StatusUpdate a1, CounterAdd a1,
                                      DurationRecord (appv_EndTime a1) (appv_StartTime a1) a1]\<rparr>))"

text \<open>The block guarded by \<^verbatim>\<open>appVersion.Status.CurrentPhase == ""\<close>.\<close>

definition appv_Started ::
  "span_cache \<Rightarrow> KeptnAppVersion \<Rightarrow> KeptnPhaseType
   \<Rightarrow> span_cache \<times> KeptnAppVersion effect list" where
  "appv_Started r a phase =
     (if appv_CurrentPhase a = [] then
        (let (r', spanAppTrace, e') =
               appv_getSpan (appv_unbindSpan r a (ShortName phase)) a (ShortName phase)
         in (r', e' @
               [SpanAddEvent spanAppTrace ''App Version Pre-Deployment Tasks started'',
                appv_recordEvent phase ''Normal'' a ''Started'' ''have started'']))
      else (r, []))"

text \<open>The walk over the phases, from the "Started" block on.\<close>

definition appv_Phases ::
  "appv_env \<Rightarrow> KeptnPhases \<Rightarrow> span_cache \<Rightarrow> KeptnAppVersion \<Rightarrow> Span
   \<Rightarrow> KeptnAppVersion outcome" where
  "appv_Phases env ph r a span =
     (let phase = PhaseAppPreDeployment ph;
          (r1, e1) = appv_Started r a phase
      in prepend e1
           (if \<not> appv_IsPreDeploymentSucceeded a then
              appv_handlePhase env r1 a phase span appv_IsPreDeploymentFailed
                (\<lambda>a. appv_reconcilePrePostDeployment env a PreDeploymentCheckType)
            else if \<not> appv_IsPreDeploymentEvaluationSucceeded a then
              appv_handlePhase env r1 a (PhaseAppPreEvaluation ph) span
                appv_IsPreDeploymentEvaluationFailed
                (\<lambda>a. appv_reconcilePrePostEvaluation env a PreDeploymentEvaluationCheckType)
            else if \<not> appv_AreWorkloadsSucceeded a then
              appv_handlePhase env r1 a (PhaseAppDeployment ph) span appv_AreWorkloadsFailed
                (\<lambda>a. appv_reconcileWorkloads env a)
            else if \<not> appv_IsPostDeploymentSucceeded a then
              appv_handlePhase env r1 a (PhaseAppPostDeployment ph) span
                appv_IsPostDeploymentFailed
                (\<lambda>a. appv_reconcilePrePostDeployment env a PostDeploymentCheckType)
            else if \<not> appv_IsPostDeploymentEvaluationCompleted env a then
              appv_handlePhase env r1 a (PhaseAppPostEvaluation ph) span
                appv_IsPostDeploymentEvaluationFailed
                (\<lambda>a. appv_reconcilePrePostEvaluation env a PostDeploymentEvaluationCheckType)
            else appv_Completed env ph r1 a span))"

definition appv_Reconcile ::
  "appv_env \<Rightarrow> KeptnPhases \<Rightarrow> span_cache \<Rightarrow> KeptnAppVersion outcome" where
  "appv_Reconcile env ph r =
     (case appv_Get env of
        GetNotFound \<Rightarrow>
          \<lparr>res = \<lparr>Requeue = False, RequeueAfter = 0\<rparr>, err = None,
           obj = empty_KeptnAppVersion, spans = r, effects = []\<rparr>
      | GetError e \<Rightarrow>
          \<lparr>res = \<lparr>Requeue = False, RequeueAfter = 0\<rparr>,
           err = Some (''could not fetch KeptnappVersion: '' @ e),
           obj = empty_KeptnAppVersion, spans = r, effects = []\<rparr>
      | GetOk appVersion \<Rightarrow>
          (let a = appv_SetStartTime (appv_now env) appVersion;
               span = ''reconcile_app_version'';
               out = appv_Phases env ph r a span
           in out\<lparr>effects := SpanStart span # effects out @ [SpanEnd span]\<rparr>))"

section \<open>The walk over the phases\<close>

text \<open>
  In the words of the spec: the reconciler walks the phase sequence in fixed order and
  attempts the first phase whose status accessor reports not-succeeded. The order pairs each
  phase with its accessor; \<open>first_unfinished\<close> is the phase the walk stops at.
\<close>

definition first_unfinished ::
  "(KeptnPhaseType \<times> ('e \<Rightarrow> bool)) list \<Rightarrow> 'e \<Rightarrow> KeptnPhaseType option" where
  "first_unfinished order e = map_option fst (find (\<lambda>(p, succeeded). \<not> succeeded e) order)"

definition wli_phase_order :: "KeptnPhases \<Rightarrow> (KeptnPhaseType \<times> (KeptnWorkloadInstance \<Rightarrow> bool)) list" where
  "wli_phase_order ph =
     [(PhaseWorkloadPreDeployment ph, wli_IsPreDeploymentSucceeded),
      (PhaseAppPreEvaluation ph, wli_IsPreDeploymentEvaluationSucceeded),
      (PhaseWorkloadDeployment ph, wli_IsDeploymentSucceeded),
      (PhaseWorkloadPostDeployment ph, wli_IsPostDeploymentSucceeded),
      (PhaseAppPostEvaluation ph, wli_IsPostDeploymentEvaluationSucceeded)]"


text \<open>
  What the sections of \<^verbatim>\<open>Reconcile\<close> before a call of \<^verbatim>\<open>handlePhase\<close> leave alone in the
  workload instance: everything but the trace id, the current phase and the promotion of a
  phase status from Pending to Progressing, which changes no accessor.
\<close>

definition wli_untouched :: "KeptnWorkloadInstance \<Rightarrow> KeptnWorkloadInstance \<Rightarrow> bool" where
  "wli_untouched w w' =
     (wli_Namespace w' = wli_Namespace w \<and> wli_Name w' = wli_Name w \<and>
      wli_AppName w' = wli_AppName w \<and> wli_WorkloadName w' = wli_WorkloadName w \<and>
      wli_Version w' = wli_Version w \<and> wli_PreviousVersion w' = wli_PreviousVersion w \<and>
      wli_PostDeploymentEvaluationStatus w' = wli_PostDeploymentEvaluationStatus w \<and>
      wli_Status w' = wli_Status w \<and>
      wli_StartTime w' = wli_StartTime w \<and> wli_EndTime w' = wli_EndTime w \<and>
      wli_IsPreDeploymentSucceeded w' = wli_IsPreDeploymentSucceeded w \<and>
      wli_IsPreDeploymentEvaluationSucceeded w' = wli_IsPreDeploymentEvaluationSucceeded w \<and>
      wli_IsDeploymentSucceeded w' = wli_IsDeploymentSucceeded w \<and>
      wli_IsPostDeploymentSucceeded w' = wli_IsPostDeploymentSucceeded w)"

text \<open>
  A reconcile returns with the directive of one call of \<^verbatim>\<open>handlePhase\<close> for phase \<open>p\<close>:
  its result and error are that call's, and the callbacks it invoked are that call's.
\<close>

definition wli_returns_handlePhase ::
  "wli_env \<Rightarrow> Span \<Rightarrow> KeptnWorkloadInstance \<Rightarrow> KeptnPhaseType
   \<Rightarrow> KeptnWorkloadInstance outcome \<Rightarrow> bool" where
  "wli_returns_handlePhase env span w p out =
     (\<exists>r w' phaseFailed reconcilePhase.
        wli_untouched w w' \<and>
        res out = res (wli_handlePhase env r w' p span phaseFailed reconcilePhase) \<and>
        err out = err (wli_handlePhase env r w' p span phaseFailed reconcilePhase) \<and>
        callbacks (effects out)
          = callbacks (effects (wli_handlePhase env r w' p span phaseFailed reconcilePhase)))"

definition appv_returns_handlePhase ::
  "appv_env \<Rightarrow> Span \<Rightarrow> KeptnAppVersion \<Rightarrow> KeptnPhaseType
   \<Rightarrow> KeptnAppVersion outcome \<Rightarrow> bool" where
  "appv_returns_handlePhase env span a p out =
     (\<exists>r phaseFailed reconcilePhase.
        res out = res (appv_handlePhase env r a p span phaseFailed reconcilePhase) \<and>
        err out = err (appv_handlePhase env r a p span phaseFailed reconcilePhase) \<and>
        callbacks (effects out)
          = callbacks (effects (appv_handlePhase env r a p span phaseFailed reconcilePhase)))"

section \<open>Concrete entities\<close>

text \<open>
  A phase table, entities and environments on which the reconcilers are run at concrete
  inputs. Versions are compared by \<open>semver_Compare\<close>; every callback returns the given
  verdict and leaves the entity alone, and every write succeeds.
\<close>

definition example_phases :: KeptnPhases where
  "example_phases =
     \<lparr>PhaseWorkloadPreDeployment =
        \<lparr>ShortName = ''WorkloadPreDeployTasks'', LongName = ''Workload Pre-Deployment Tasks''\<rparr>,
      PhaseWorkloadDeployment =
        \<lparr>ShortName = ''WorkloadDeploy'', LongName = ''Workload Deployment''\<rparr>,
      PhaseWorkloadPostDeployment =
        \<lparr>ShortName = ''WorkloadPostDeployTasks'', LongName = ''Workload Post-Deployment Tasks''\<rparr>,
      PhaseAppPreDeployment =
        \<lparr>ShortName = ''AppPreDeployTasks'', LongName = ''App Pre-Deployment Tasks''\<rparr>,
      PhaseAppPreEvaluation =
        \<lparr>ShortName = ''AppPreDeployEvaluations'', LongName = ''App Pre-Deployment Evaluations''\<rparr>,
      PhaseAppDeployment =
        \<lparr>ShortName = ''AppDeploy'', LongName = ''App Deployment''\<rparr>,
      PhaseAppPostDeployment =
        \<lparr>ShortName = ''AppPostDeployTasks'', LongName = ''App Post-Deployment Tasks''\<rparr>,
      PhaseAppPostEvaluation =
        \<lparr>ShortName = ''AppPostDeployEvaluations'', LongName = ''App Post-Deployment Evaluations''\<rparr>,
      PhaseCompleted =
        \<lparr>ShortName = ''Completed'', LongName = ''Completed''\<rparr>\<rparr>"

definition example_wli :: KeptnWorkloadInstance where
  "example_wli =
     \<lparr>wli_Namespace = ''default'', wli_Name = ''podtato-head-entry-0.1.0'',
      wli_AppName = ''podtato-head'', wli_WorkloadName = ''podtato-head-entry'',
      wli_Version = ''0.1.0'', wli_PreviousVersion = [], wli_TraceId = [],
      wli_PreDeploymentStatus = StatePending,
      wli_PreDeploymentEvaluationStatus = StatePending,
      wli_DeploymentStatus = StatePending,
      wli_PostDeploymentStatus = StatePending,
      wli_PostDeploymentEvaluationStatus = StatePending,
      wli_CurrentPhase = [], wli_Status = StatePending,
      wli_StartTime = None, wli_EndTime = None\<rparr>"

definition example_appv :: "string \<Rightarrow> KeptnAppVersion" where
  "example_appv v =
     \<lparr>appv_Namespace = ''default'', appv_Name = ''podtato-head-'' @ v,
      appv_AppName = ''podtato-head'', appv_Version = v, appv_PreviousVersion = [],
      appv_Workloads = [\<lparr>ref_Name = ''entry'', ref_Version = ''0.1.0''\<rparr>],
      appv_TraceId = [(''traceparent'', ''00-0af7651916cd43dd-b7ad6b7169203331-01'')],
      appv_PreDeploymentStatus = StateSucceeded,
      appv_PreDeploymentEvaluationStatus = StateSucceeded,
      appv_WorkloadStatus = [StateProgressing],
      appv_PostDeploymentStatus = StatePending,
      appv_PostDeploymentEvaluationStatus = StatePending,
      appv_CurrentPhase = ''AppDeploy'', appv_Status = StateProgressing,
      appv_StartTime = Some 40, appv_EndTime = None\<rparr>"

definition example_wli_env ::
  "KeptnWorkloadInstance \<Rightarrow> KeptnAppVersion list \<Rightarrow> KeptnState \<Rightarrow> wli_env" where
  "example_wli_env w apps verdict =
     \<lparr>wli_Get = GetOk w,
      wli_List = (\<lambda>ns. Inr (filter (\<lambda>a. appv_Namespace a = ns) apps)),
      wli_Update = (\<lambda>w. None),
      wli_now = 100,
      wli_Compare = semver_Compare,
      wli_reconcilePrePostDeployment = (\<lambda>w c. ((verdict, None), w)),
      wli_reconcilePrePostEvaluation = (\<lambda>w c. ((verdict, None), w)),
      wli_reconcileDeployment = (\<lambda>w. ((verdict, None), w))\<rparr>"

definition example_appv_env :: "KeptnAppVersion \<Rightarrow> KeptnState \<Rightarrow> appv_env" where
  "example_appv_env a verdict =
     \<lparr>appv_Get = GetOk a,
      appv_Update = (\<lambda>a. None),
      appv_now = 100,
      appv_IsPostDeploymentEvaluationCompleted =
        (\<lambda>a. IsSucceeded (appv_PostDeploymentEvaluationStatus a)),
      appv_reconcilePrePostDeployment = (\<lambda>a c. ((verdict, None), a)),
      appv_reconcilePrePostEvaluation = (\<lambda>a c. ((verdict, None), a)),
      appv_reconcileWorkloads = (\<lambda>a. ((verdict, None), a))\<rparr>"

text \<open>A workload instance that has completed.\<close>

definition example_wli_completed :: KeptnWorkloadInstance where
  "example_wli_completed =
     example_wli
       \<lparr>wli_TraceId := [(''traceparent'', ''00-0af7651916cd43dd-b7ad6b7169203331-01'')],
        wli_PreDeploymentStatus := StateSucceeded,
        wli_PreDeploymentEvaluationStatus := StateSucceeded,
        wli_DeploymentStatus := StateSucceeded,
        wli_PostDeploymentStatus := StateSucceeded,
        wli_PostDeploymentEvaluationStatus := StateSucceeded,
        wli_CurrentPhase := ''Completed'', wli_Status := StateSucceeded,
        wli_StartTime := Some 50, wli_EndTime := Some 90\<rparr>"

text \<open>A workload instance whose deployment is under way.\<close>

definition example_wli_deploying :: KeptnWorkloadInstance where
  "example_wli_deploying =
     example_wli
       \<lparr>wli_TraceId := [(''traceparent'', ''00-0af7651916cd43dd-b7ad6b7169203331-01'')],
        wli_PreDeploymentStatus := StateSucceeded,
        wli_PreDeploymentEvaluationStatus := StateSucceeded,
        wli_DeploymentStatus := StateProgressing,
        wli_CurrentPhase := ''WorkloadDeploy'', wli_Status := StateProgressing,
        wli_StartTime := Some 50\<rparr>"

text \<open>A workload instance that has only its post-deployment evaluation left.\<close>

definition example_wli_evaluating :: KeptnWorkloadInstance where
  "example_wli_evaluating =
     example_wli_completed
       \<lparr>wli_PostDeploymentEvaluationStatus := StatePending,
        wli_CurrentPhase := ''WorkloadPostDeployTasks'', wli_Status := StateProgressing,
        wli_EndTime := None\<rparr>"

text \<open>An application version that has completed.\<close>

definition example_appv_completed :: KeptnAppVersion where
  "example_appv_completed =
     (example_appv ''1.2.0'')
       \<lparr>appv_WorkloadStatus := [StateSucceeded],
        appv_PostDeploymentStatus := StateSucceeded,
        appv_PostDeploymentEvaluationStatus := StateSucceeded,
        appv_CurrentPhase := ''Completed'', appv_Status := StateSucceeded,
        appv_EndTime := Some 95\<rparr>"

text \<open>An application version that has not been reconciled yet.\<close>

definition example_appv_fresh :: KeptnAppVersion where
  "example_appv_fresh =
     (example_appv ''1.2.0'')
       \<lparr>appv_PreDeploymentStatus := StatePending,
        appv_PreDeploymentEvaluationStatus := StatePending,
        appv_WorkloadStatus := [StatePending],
        appv_CurrentPhase := [], appv_Status := StatePending,
        appv_StartTime := None\<rparr>"

text \<open>A workload instance whose phases have all succeeded and that is not yet completed.\<close>

definition example_wli_finishing :: KeptnWorkloadInstance where
  "example_wli_finishing =
     example_wli_completed
       \<lparr>wli_CurrentPhase := ''AppPostDeployEvaluations'', wli_Status := StateProgressing,
        wli_EndTime := None\<rparr>"

section \<open>Properties\<close>

subsection \<open>Observations distribute over the effects\<close>

lemma callbacks_append [simp]: "callbacks (xs @ ys) = callbacks xs @ callbacks ys"
  by (induction xs rule: callbacks.induct) auto

lemma status_writes_append [simp]: "status_writes (xs @ ys) = status_writes xs @ status_writes ys"
  by (induction xs rule: status_writes.induct) auto

lemma counter_samples_append [simp]:
  "counter_samples (xs @ ys) = counter_samples xs @ counter_samples ys"
  by (induction xs rule: counter_samples.induct) auto

lemma duration_samples_append [simp]:
  "duration_samples (xs @ ys) = duration_samples xs @ duration_samples ys"
  by (induction xs rule: duration_samples.induct) auto

lemma events_append [simp]: "events (xs @ ys) = events xs @ events ys"
  by (induction xs rule: events.induct) auto

lemma span_starts_append [simp]: "span_starts (xs @ ys) = span_starts xs @ span_starts ys"
  by (induction xs rule: span_starts.induct) auto

lemma wli_getSpan_quiet [simp]:
  "callbacks (snd (snd (wli_getSpan r w p))) = []"
  "status_writes (snd (snd (wli_getSpan r w p))) = []"
  "counter_samples (snd (snd (wli_getSpan r w p))) = []"
  "duration_samples (snd (snd (wli_getSpan r w p))) = []"
  "events (snd (snd (wli_getSpan r w p))) = []"
  by (simp_all add: wli_getSpan_def Let_def split: option.splits)

lemma appv_getSpan_quiet [simp]:
  "callbacks (snd (snd (appv_getSpan r a p))) = []"
  "status_writes (snd (snd (appv_getSpan r a p))) = []"
  "counter_samples (snd (snd (appv_getSpan r a p))) = []"
  "duration_samples (snd (snd (appv_getSpan r a p))) = []"
  "events (snd (snd (appv_getSpan r a p))) = []"
  by (simp_all add: appv_getSpan_def Let_def split: option.splits)

lemma prepend_simps [simp]:
  "res (prepend es out) = res out"
  "err (prepend es out) = err out"
  "obj (prepend es out) = obj out"
  "spans (prepend es out) = spans out"
  "effects (prepend es out) = es @ effects out"
  by (simp_all add: prepend_def)

subsection \<open>Collections of defining equations\<close>

lemmas wli_accessor_defs = IsSucceeded_def IsFailed_def
  wli_SetStartTime_def wli_SetEndTime_def wli_IsEndTimeSet_def
  wli_IsPreDeploymentSucceeded_def wli_IsPreDeploymentFailed_def
  wli_IsPreDeploymentEvaluationSucceeded_def wli_IsPreDeploymentEvaluationFailed_def
  wli_IsDeploymentSucceeded_def wli_IsDeploymentFailed_def
  wli_IsPostDeploymentSucceeded_def wli_IsPostDeploymentFailed_def
  wli_IsPostDeploymentEvaluationSucceeded_def wli_IsPostDeploymentEvaluationFailed_def

lemmas appv_accessor_defs = IsSucceeded_def IsFailed_def
  appv_SetStartTime_def appv_SetEndTime_def appv_IsEndTimeSet_def
  appv_IsPreDeploymentSucceeded_def appv_IsPreDeploymentFailed_def
  appv_IsPreDeploymentEvaluationSucceeded_def appv_IsPreDeploymentEvaluationFailed_def
  appv_AreWorkloadsSucceeded_def appv_AreWorkloadsFailed_def
  appv_IsPostDeploymentSucceeded_def appv_IsPostDeploymentFailed_def
  appv_IsPostDeploymentEvaluationFailed_def

lemmas wli_span_defs = wli_recordEvent_def wli_getSpanName_def wli_getSpan_def wli_unbindSpan_def

lemmas appv_span_defs =
  appv_recordEvent_def appv_getSpanName_def appv_getSpan_def appv_unbindSpan_def

lemmas wli_part_defs = wli_Completed_def wli_PostEvaluation_def wli_PostDeployment_def
  wli_Deployment_def wli_PreEvaluation_def wli_Started_def wli_PreDeployment_def

lemmas wli_resolver_defs = wli_getAppVersionForWorkloadInstance_def wli_matches_def wli_newer_def
  empty_KeptnAppVersion_def

lemmas semver_defs = semver_Compare_def semver_parse_def semver_parseInt_def
  semver_compareInt_def semver_comparePrerelease_def semver_isDigit_def
  semver_parsePrerelease_def semver_parseBuild_def semver_isIdentChar_def
  semver_isBadNum_def semver_isNum_def

lemmas example_defs = example_phases_def example_wli_def example_appv_def
  example_wli_env_def example_appv_env_def

subsection \<open>The phase driver\<close>

text \<open>
  C5. In \<^verbatim>\<open>handlePhase\<close> of either entity kind, when \<^verbatim>\<open>phaseFailed()\<close> holds (it is
  evaluated on the entity with \<open>CurrentPhase\<close> already set to the phase), the driver emits
  exactly one event, the warning "Failed", returns a requeue after 60 seconds with no error,
  does not invoke the \<^verbatim>\<open>reconcilePhase\<close> callback and writes no status.
\<close>

theorem handlePhase_phaseFailed:
  "(phaseFailed (w\<lparr>wli_CurrentPhase := ShortName phase\<rparr>) \<longrightarrow>
      res (wli_handlePhase env r w phase span phaseFailed reconcilePhase)
        = \<lparr>Requeue = True, RequeueAfter = 60\<rparr> \<and>
      err (wli_handlePhase env r w phase span phaseFailed reconcilePhase) = None \<and>
      events (effects (wli_handlePhase env r w phase span phaseFailed reconcilePhase))
        = [(''Warning'', ''Failed'')] \<and>
      callbacks (effects (wli_handlePhase env r w phase span phaseFailed reconcilePhase)) = [] \<and>
      status_writes (effects (wli_handlePhase env r w phase span phaseFailed reconcilePhase)) = [])
   \<and>
   (phaseFailed' (a\<lparr>appv_CurrentPhase := ShortName phase\<rparr>) \<longrightarrow>
      res (appv_handlePhase env' r a phase span phaseFailed' reconcilePhase')
        = \<lparr>Requeue = True, RequeueAfter = 60\<rparr> \<and>
      err (appv_handlePhase env' r a phase span phaseFailed' reconcilePhase') = None \<and>
      events (effects (appv_handlePhase env' r a phase span phaseFailed' reconcilePhase'))
        = [(''Warning'', ''Failed'')] \<and>
      callbacks (effects (appv_handlePhase env' r a phase span phaseFailed' reconcilePhase')) = [] \<and>
      status_writes (effects (appv_handlePhase env' r a phase span phaseFailed' reconcilePhase')) = [])"
  by (simp add: wli_handlePhase_def appv_handlePhase_def Let_def split_beta
        wli_recordEvent_def appv_recordEvent_def)

theorem handlePhase_phaseFailed_witness:
  "wli_IsPreDeploymentFailed
     (example_wli\<lparr>wli_PreDeploymentStatus := StateFailed,
                  wli_CurrentPhase := ShortName (PhaseWorkloadPreDeployment example_phases)\<rparr>) \<and>
   res (wli_handlePhase (example_wli_env example_wli [] StateSucceeded) Map.empty
          (example_wli\<lparr>wli_PreDeploymentStatus := StateFailed\<rparr>)
          (PhaseWorkloadPreDeployment example_phases) ''reconcile_workload_instance''
          wli_IsPreDeploymentFailed
          (\<lambda>w. wli_reconcilePrePostDeployment (example_wli_env example_wli [] StateSucceeded) w
                  PreDeploymentCheckType))
     = \<lparr>Requeue = True, RequeueAfter = 60\<rparr> \<and>
   callbacks (effects (wli_handlePhase (example_wli_env example_wli [] StateSucceeded) Map.empty
          (example_wli\<lparr>wli_PreDeploymentStatus := StateFailed\<rparr>)
          (PhaseWorkloadPreDeployment example_phases) ''reconcile_workload_instance''
          wli_IsPreDeploymentFailed
          (\<lambda>w. wli_reconcilePrePostDeployment (example_wli_env example_wli [] StateSucceeded) w
                  PreDeploymentCheckType))) = [] \<and>
   appv_AreWorkloadsFailed
     ((example_appv ''1.2.0'')\<lparr>appv_WorkloadStatus := [StateSucceeded, StateFailed],
        appv_CurrentPhase := ShortName (PhaseAppDeployment example_phases)\<rparr>) \<and>
   res (appv_handlePhase (example_appv_env (example_appv ''1.2.0'') StateSucceeded) Map.empty
          ((example_appv ''1.2.0'')\<lparr>appv_WorkloadStatus := [StateSucceeded, StateFailed]\<rparr>)
          (PhaseAppDeployment example_phases) ''reconcile_app_version''
          appv_AreWorkloadsFailed
          (appv_reconcileWorkloads (example_appv_env (example_appv ''1.2.0'') StateSucceeded)))
     = \<lparr>Requeue = True, RequeueAfter = 60\<rparr> \<and>
   status_writes (effects (appv_handlePhase
          (example_appv_env (example_appv ''1.2.0'') StateSucceeded) Map.empty
          ((example_appv ''1.2.0'')\<lparr>appv_WorkloadStatus := [StateSucceeded, StateFailed]\<rparr>)
          (PhaseAppDeployment example_phases) ''reconcile_app_version''
          appv_AreWorkloadsFailed
          (appv_reconcileWorkloads (example_appv_env (example_appv ''1.2.0'') StateSucceeded))))
     = []"
proof -
  have f1: "wli_IsPreDeploymentFailed
     (example_wli\<lparr>wli_PreDeploymentStatus := StateFailed,
                  wli_CurrentPhase := ShortName (PhaseWorkloadPreDeployment example_phases)\<rparr>)"
    by (simp add: wli_IsPreDeploymentFailed_def IsFailed_def)
  have f2: "appv_AreWorkloadsFailed
     ((example_appv ''1.2.0'')\<lparr>appv_WorkloadStatus := [StateSucceeded, StateFailed],
        appv_CurrentPhase := ShortName (PhaseAppDeployment example_phases)\<rparr>)"
    by (simp add: appv_AreWorkloadsFailed_def IsFailed_def)
  show ?thesis
    using f1 f2
      handlePhase_phaseFailed [where phaseFailed = wli_IsPreDeploymentFailed
        and w = "example_wli\<lparr>wli_PreDeploymentStatus := StateFailed\<rparr>"
        and phase = "PhaseWorkloadPreDeployment example_phases"
        and env = "example_wli_env example_wli [] StateSucceeded" and r = Map.empty
        and span = "''reconcile_workload_instance''"
        and reconcilePhase =
          "\<lambda>w. wli_reconcilePrePostDeployment (example_wli_env example_wli [] StateSucceeded) w
                  PreDeploymentCheckType"]
      handlePhase_phaseFailed [where phaseFailed' = appv_AreWorkloadsFailed
        and a = "(example_appv ''1.2.0'')\<lparr>appv_WorkloadStatus := [StateSucceeded, StateFailed]\<rparr>"
        and phase = "PhaseAppDeployment example_phases"
        and env' = "example_appv_env (example_appv ''1.2.0'') StateSucceeded" and r = Map.empty
        and span = "''reconcile_app_version''"
        and reconcilePhase' =
          "appv_reconcileWorkloads (example_appv_env (example_appv ''1.2.0'') StateSucceeded)"]
    by simp
qed

text \<open>
  C7. In \<^verbatim>\<open>handlePhase\<close> of either entity kind, past the \<^verbatim>\<open>phaseFailed\<close>
  short-circuit: when the callback returns an error, the driver asks for an immediate requeue
  (\<open>Requeue\<close> with no delay) and hands the error on; when the callback returns without
  error, whatever the state it reports (Succeeded, Failed, Progressing), the driver asks for a
  requeue after 5 seconds and returns no error.
\<close>

theorem handlePhase_directive:
  "(\<not> phaseFailed (w\<lparr>wli_CurrentPhase := ShortName phase\<rparr>) \<longrightarrow>
      (\<forall>e. snd (fst (reconcilePhase (w\<lparr>wli_CurrentPhase := ShortName phase\<rparr>))) = Some e \<longrightarrow>
         res (wli_handlePhase env r w phase span phaseFailed reconcilePhase)
           = \<lparr>Requeue = True, RequeueAfter = 0\<rparr> \<and>
         err (wli_handlePhase env r w phase span phaseFailed reconcilePhase) = Some e) \<and>
      (snd (fst (reconcilePhase (w\<lparr>wli_CurrentPhase := ShortName phase\<rparr>))) = None \<longrightarrow>
         res (wli_handlePhase env r w phase span phaseFailed reconcilePhase)
           = \<lparr>Requeue = True, RequeueAfter = 5\<rparr> \<and>
         err (wli_handlePhase env r w phase span phaseFailed reconcilePhase) = None))
   \<and>
   (\<not> phaseFailed' (a\<lparr>appv_CurrentPhase := ShortName phase\<rparr>) \<longrightarrow>
      (\<forall>e. snd (fst (reconcilePhase' (a\<lparr>appv_CurrentPhase := ShortName phase\<rparr>))) = Some e \<longrightarrow>
         res (appv_handlePhase env' r a phase span phaseFailed' reconcilePhase')
           = \<lparr>Requeue = True, RequeueAfter = 0\<rparr> \<and>
         err (appv_handlePhase env' r a phase span phaseFailed' reconcilePhase') = Some e) \<and>
      (snd (fst (reconcilePhase' (a\<lparr>appv_CurrentPhase := ShortName phase\<rparr>))) = None \<longrightarrow>
         res (appv_handlePhase env' r a phase span phaseFailed' reconcilePhase')
           = \<lparr>Requeue = True, RequeueAfter = 5\<rparr> \<and>
         err (appv_handlePhase env' r a phase span phaseFailed' reconcilePhase') = None))"
  by (simp add: wli_handlePhase_def appv_handlePhase_def Let_def split_beta
        split: prod.splits option.splits)

theorem handlePhase_directive_witness:
  "\<not> wli_IsDeploymentFailed
       (example_wli\<lparr>wli_CurrentPhase := ShortName (PhaseWorkloadDeployment example_phases)\<rparr>) \<and>
   snd (fst ((\<lambda>w. ((StateProgressing, Some ''deployment not reachable''), w))
       (example_wli\<lparr>wli_CurrentPhase := ShortName (PhaseWorkloadDeployment example_phases)\<rparr>)))
     = Some ''deployment not reachable'' \<and>
   res (wli_handlePhase (example_wli_env example_wli [] StateFailed) Map.empty example_wli
          (PhaseWorkloadDeployment example_phases) ''reconcile_workload_instance''
          wli_IsDeploymentFailed
          (\<lambda>w. ((StateProgressing, Some ''deployment not reachable''), w)))
     = \<lparr>Requeue = True, RequeueAfter = 0\<rparr> \<and>
   err (wli_handlePhase (example_wli_env example_wli [] StateFailed) Map.empty example_wli
          (PhaseWorkloadDeployment example_phases) ''reconcile_workload_instance''
          wli_IsDeploymentFailed
          (\<lambda>w. ((StateProgressing, Some ''deployment not reachable''), w)))
     = Some ''deployment not reachable'' \<and>
   snd (fst (wli_reconcileDeployment (example_wli_env example_wli [] StateFailed)
       (example_wli\<lparr>wli_CurrentPhase := ShortName (PhaseWorkloadDeployment example_phases)\<rparr>)))
     = None \<and>
   res (wli_handlePhase (example_wli_env example_wli [] StateFailed) Map.empty example_wli
          (PhaseWorkloadDeployment example_phases) ''reconcile_workload_instance''
          wli_IsDeploymentFailed
          (wli_reconcileDeployment (example_wli_env example_wli [] StateFailed)))
     = \<lparr>Requeue = True, RequeueAfter = 5\<rparr> \<and>
   err (wli_handlePhase (example_wli_env example_wli [] StateFailed) Map.empty example_wli
          (PhaseWorkloadDeployment example_phases) ''reconcile_workload_instance''
          wli_IsDeploymentFailed
          (wli_reconcileDeployment (example_wli_env example_wli [] StateFailed)))
     = None \<and>
   \<not> appv_AreWorkloadsFailed
       ((example_appv ''1.2.0'')\<lparr>appv_CurrentPhase := ShortName (PhaseAppDeployment example_phases)\<rparr>) \<and>
   res (appv_handlePhase (example_appv_env (example_appv ''1.2.0'') StateFailed) Map.empty
          (example_appv ''1.2.0'') (PhaseAppDeployment example_phases) ''reconcile_app_version''
          appv_AreWorkloadsFailed
          (\<lambda>a. ((StateProgressing, Some ''workloads not listed''), a)))
     = \<lparr>Requeue = True, RequeueAfter = 0\<rparr> \<and>
   err (appv_handlePhase (example_appv_env (example_appv ''1.2.0'') StateFailed) Map.empty
          (example_appv ''1.2.0'') (PhaseAppDeployment example_phases) ''reconcile_app_version''
          appv_AreWorkloadsFailed
          (\<lambda>a. ((StateProgressing, Some ''workloads not listed''), a)))
     = Some ''workloads not listed'' \<and>
   res (appv_handlePhase (example_appv_env (example_appv ''1.2.0'') StateFailed) Map.empty
          (example_appv ''1.2.0'') (PhaseAppDeployment example_phases) ''reconcile_app_version''
          appv_AreWorkloadsFailed
          (appv_reconcileWorkloads (example_appv_env (example_appv ''1.2.0'') StateFailed)))
     = \<lparr>Requeue = True, RequeueAfter = 5\<rparr> \<and>
   err (appv_handlePhase (example_appv_env (example_appv ''1.2.0'') StateFailed) Map.empty
          (example_appv ''1.2.0'') (PhaseAppDeployment example_phases) ''reconcile_app_version''
          appv_AreWorkloadsFailed
          (appv_reconcileWorkloads (example_appv_env (example_appv ''1.2.0'') StateFailed)))
     = None"
proof -
  have f1: "\<not> wli_IsDeploymentFailed
       (example_wli\<lparr>wli_CurrentPhase := ShortName (PhaseWorkloadDeployment example_phases)\<rparr>)"
    by (simp add: wli_IsDeploymentFailed_def IsFailed_def example_wli_def)
  have f2: "\<not> appv_AreWorkloadsFailed
       ((example_appv ''1.2.0'')\<lparr>appv_CurrentPhase := ShortName (PhaseAppDeployment example_phases)\<rparr>)"
    by (simp add: appv_AreWorkloadsFailed_def IsFailed_def example_appv_def)
  have f3: "snd (fst (wli_reconcileDeployment (example_wli_env example_wli [] StateFailed) w)) = None"
    for w by (simp add: example_wli_env_def)
  have f4: "snd (fst (appv_reconcileWorkloads (example_appv_env (example_appv ''1.2.0'') StateFailed) a))
      = None" for a by (simp add: example_appv_env_def)
  show ?thesis
    using f1 f2 f3 f4
      handlePhase_directive [where phaseFailed = wli_IsDeploymentFailed and w = example_wli
        and phase = "PhaseWorkloadDeployment example_phases"
        and env = "example_wli_env example_wli [] StateFailed" and r = Map.empty
        and span = "''reconcile_workload_instance''"
        and reconcilePhase = "\<lambda>w. ((StateProgressing, Some ''deployment not reachable''), w)"]
      handlePhase_directive [where phaseFailed = wli_IsDeploymentFailed and w = example_wli
        and phase = "PhaseWorkloadDeployment example_phases"
        and env = "example_wli_env example_wli [] StateFailed" and r = Map.empty
        and span = "''reconcile_workload_instance''"
        and reconcilePhase = "wli_reconcileDeployment (example_wli_env example_wli [] StateFailed)"]
      handlePhase_directive [where phaseFailed' = appv_AreWorkloadsFailed
        and a = "example_appv ''1.2.0''"
        and phase = "PhaseAppDeployment example_phases"
        and env' = "example_appv_env (example_appv ''1.2.0'') StateFailed" and r = Map.empty
        and span = "''reconcile_app_version''"
        and reconcilePhase' = "\<lambda>a. ((StateProgressing, Some ''workloads not listed''), a)"]
      handlePhase_directive [where phaseFailed' = appv_AreWorkloadsFailed
        and a = "example_appv ''1.2.0''"
        and phase = "PhaseAppDeployment example_phases"
        and env' = "example_appv_env (example_appv ''1.2.0'') StateFailed" and r = Map.empty
        and span = "''reconcile_app_version''"
        and reconcilePhase' =
          "appv_reconcileWorkloads (example_appv_env (example_appv ''1.2.0'') StateFailed)"]
    by simp
qed

subsection \<open>The gate of the workload instance\<close>

text \<open>
  C6. On an entity that was fetched, the gate of the workload-instance reconcile gives exactly
  these directives: a failed resolution of the application version asks for a requeue after 10
  seconds and returns the error, wrapped; no application version found asks for 10 seconds
  with an error saying so; a resolved application version whose pre-deployment evaluation is
  Failed asks for 60 seconds, one that is neither Failed nor Succeeded for 20 seconds, both
  without error. In these four cases no callback runs and nothing is written. Only when the
  evaluation is Succeeded does the reconcile go on to the phases of the instance.
\<close>

theorem wli_gate:
  assumes "wli_Get env = GetOk w0"
    and "resolved = wli_getAppVersionForWorkloadInstance env (wli_SetStartTime (wli_now env) w0)"
  shows
   "(\<forall>e. snd (snd resolved) = Some e \<longrightarrow>
      res (wli_Reconcile env ph r) = \<lparr>Requeue = True, RequeueAfter = 10\<rparr> \<and>
      err (wli_Reconcile env ph r)
        = Some (''could not fetch AppVersion for KeptnWorkloadInstance: '' @ e) \<and>
      callbacks (effects (wli_Reconcile env ph r)) = [] \<and>
      status_writes (effects (wli_Reconcile env ph r)) = [])
    \<and>
    (snd (snd resolved) = None \<and> \<not> fst resolved \<longrightarrow>
      res (wli_Reconcile env ph r) = \<lparr>Requeue = True, RequeueAfter = 10\<rparr> \<and>
      err (wli_Reconcile env ph r)
        = Some ''could not find AppVersion for KeptnWorkloadInstance'' \<and>
      callbacks (effects (wli_Reconcile env ph r)) = [] \<and>
      status_writes (effects (wli_Reconcile env ph r)) = [])
    \<and>
    (snd (snd resolved) = None \<and> fst resolved \<and>
     appv_PreDeploymentEvaluationStatus (fst (snd resolved)) = StateFailed \<longrightarrow>
      res (wli_Reconcile env ph r) = \<lparr>Requeue = True, RequeueAfter = 60\<rparr> \<and>
      err (wli_Reconcile env ph r) = None \<and>
      callbacks (effects (wli_Reconcile env ph r)) = [] \<and>
      status_writes (effects (wli_Reconcile env ph r)) = [])
    \<and>
    (snd (snd resolved) = None \<and> fst resolved \<and>
     appv_PreDeploymentEvaluationStatus (fst (snd resolved)) \<noteq> StateFailed \<and>
     appv_PreDeploymentEvaluationStatus (fst (snd resolved)) \<noteq> StateSucceeded \<longrightarrow>
      res (wli_Reconcile env ph r) = \<lparr>Requeue = True, RequeueAfter = 20\<rparr> \<and>
      err (wli_Reconcile env ph r) = None \<and>
      callbacks (effects (wli_Reconcile env ph r)) = [] \<and>
      status_writes (effects (wli_Reconcile env ph r)) = [])
    \<and>
    (snd (snd resolved) = None \<and> fst resolved \<and>
     appv_PreDeploymentEvaluationStatus (fst (snd resolved)) = StateSucceeded \<longrightarrow>
      wli_Reconcile env ph r =
        (let out = wli_PreDeployment env ph r (wli_SetStartTime (wli_now env) w0)
                     (fst (snd resolved)) ''reconcile_workload_instance''
         in out\<lparr>effects := SpanStart ''reconcile_workload_instance'' # effects out
                             @ [SpanEnd ''reconcile_workload_instance'']\<rparr>))"
proof -
  obtain found a e where R: "resolved = (found, a, e)"
    by (cases resolved) auto
  show ?thesis
    using assms(1) assms(2) [symmetric] unfolding R
    by (cases e; cases found)
       (simp_all add: wli_Reconcile_def Let_def IsSucceeded_def IsFailed_def wli_recordEvent_def)
qed

theorem wli_gate_witness:
  "wli_getAppVersionForWorkloadInstance
     ((example_wli_env example_wli [] StateProgressing)
        \<lparr>wli_List := \<lambda>ns. Inl ''connection refused''\<rparr>)
     (wli_SetStartTime 100 example_wli)
     = (False, empty_KeptnAppVersion, Some ''connection refused'') \<and>
   res (wli_Reconcile ((example_wli_env example_wli [] StateProgressing)
          \<lparr>wli_List := \<lambda>ns. Inl ''connection refused''\<rparr>) example_phases Map.empty)
     = \<lparr>Requeue = True, RequeueAfter = 10\<rparr> \<and>
   err (wli_Reconcile ((example_wli_env example_wli [] StateProgressing)
          \<lparr>wli_List := \<lambda>ns. Inl ''connection refused''\<rparr>) example_phases Map.empty)
     = Some ''could not fetch AppVersion for KeptnWorkloadInstance: connection refused'' \<and>
   wli_getAppVersionForWorkloadInstance (example_wli_env example_wli [] StateProgressing)
     (wli_SetStartTime 100 example_wli) = (False, empty_KeptnAppVersion, None) \<and>
   res (wli_Reconcile (example_wli_env example_wli [] StateProgressing) example_phases Map.empty)
     = \<lparr>Requeue = True, RequeueAfter = 10\<rparr> \<and>
   err (wli_Reconcile (example_wli_env example_wli [] StateProgressing) example_phases Map.empty)
     = Some ''could not find AppVersion for KeptnWorkloadInstance'' \<and>
   res (wli_Reconcile
          (example_wli_env example_wli
             [(example_appv ''1.2.0'')\<lparr>appv_PreDeploymentEvaluationStatus := StateFailed\<rparr>]
             StateProgressing) example_phases Map.empty)
     = \<lparr>Requeue = True, RequeueAfter = 60\<rparr> \<and>
   res (wli_Reconcile
          (example_wli_env example_wli
             [(example_appv ''1.2.0'')\<lparr>appv_PreDeploymentEvaluationStatus := StateProgressing\<rparr>]
             StateProgressing) example_phases Map.empty)
     = \<lparr>Requeue = True, RequeueAfter = 20\<rparr> \<and>
   wli_getAppVersionForWorkloadInstance
     (example_wli_env example_wli [example_appv ''1.2.0''] StateProgressing)
     (wli_SetStartTime 100 example_wli) = (True, example_appv ''1.2.0'', None) \<and>
   map fst (callbacks (effects (wli_Reconcile
          (example_wli_env example_wli [example_appv ''1.2.0''] StateProgressing)
          example_phases Map.empty)))
     = [PhaseWorkloadPreDeployment example_phases]"
proof -
  have r1: "wli_getAppVersionForWorkloadInstance
     ((example_wli_env example_wli [] StateProgressing)
        \<lparr>wli_List := \<lambda>ns. Inl ''connection refused''\<rparr>)
     (wli_SetStartTime 100 example_wli)
     = (False, empty_KeptnAppVersion, Some ''connection refused'')"
    by (simp add: wli_resolver_defs example_defs)
  have r2: "wli_getAppVersionForWorkloadInstance (example_wli_env example_wli [] StateProgressing)
     (wli_SetStartTime 100 example_wli) = (False, empty_KeptnAppVersion, None)"
    by (simp add: wli_resolver_defs example_defs)
  have r3: "wli_getAppVersionForWorkloadInstance
     (example_wli_env example_wli [(example_appv ''1.2.0'')\<lparr>appv_PreDeploymentEvaluationStatus := s\<rparr>]
        StateProgressing)
     (wli_SetStartTime 100 example_wli)
     = (True, (example_appv ''1.2.0'')\<lparr>appv_PreDeploymentEvaluationStatus := s\<rparr>, None)" for s
    by (simp add: wli_resolver_defs example_defs wli_SetStartTime_def)
  have r5: "wli_getAppVersionForWorkloadInstance
     (example_wli_env example_wli [example_appv ''1.2.0''] StateProgressing)
     (wli_SetStartTime 100 example_wli) = (True, example_appv ''1.2.0'', None)"
    by (simp add: wli_resolver_defs example_defs wli_SetStartTime_def)
  have n: "wli_now (example_wli_env w apps v) = 100"
    "wli_now ((example_wli_env w apps v)\<lparr>wli_List := l\<rparr>) = 100"
    "wli_Get (example_wli_env w apps v) = GetOk w"
    "wli_Get ((example_wli_env w apps v)\<lparr>wli_List := l\<rparr>) = GetOk w" for w apps v l
    by (simp_all add: example_wli_env_def)
  have c5: "map fst (callbacks (effects (wli_PreDeployment
          (example_wli_env example_wli [example_appv ''1.2.0''] StateProgressing)
          example_phases Map.empty (wli_SetStartTime 100 example_wli) (example_appv ''1.2.0'')
          ''reconcile_workload_instance'')))
     = [PhaseWorkloadPreDeployment example_phases]"
    by (simp add: wli_PreDeployment_def wli_Started_def wli_handlePhase_def wli_accessor_defs
          wli_span_defs example_defs Let_def)
  have s: "appv_PreDeploymentEvaluationStatus (example_appv ''1.2.0'') = StateSucceeded"
    by (simp add: example_appv_def)
  show ?thesis
    using r1 r2 r3 [of StateFailed] r3 [of StateProgressing] r5 c5 s
      wli_gate [where env = "(example_wli_env example_wli [] StateProgressing)
          \<lparr>wli_List := \<lambda>ns. Inl ''connection refused''\<rparr>" and ph = example_phases
          and r = Map.empty and ?w0.0 = example_wli, OF _ refl]
      wli_gate [where env = "example_wli_env example_wli [] StateProgressing"
          and ph = example_phases and r = Map.empty and ?w0.0 = example_wli, OF _ refl]
      wli_gate [where env = "example_wli_env example_wli
             [(example_appv ''1.2.0'')\<lparr>appv_PreDeploymentEvaluationStatus := StateFailed\<rparr>]
             StateProgressing"
          and ph = example_phases and r = Map.empty and ?w0.0 = example_wli, OF _ refl]
      wli_gate [where env = "example_wli_env example_wli
             [(example_appv ''1.2.0'')\<lparr>appv_PreDeploymentEvaluationStatus := StateProgressing\<rparr>]
             StateProgressing"
          and ph = example_phases and r = Map.empty and ?w0.0 = example_wli, OF _ refl]
      wli_gate [where env = "example_wli_env example_wli [example_appv ''1.2.0''] StateProgressing"
          and ph = example_phases and r = Map.empty and ?w0.0 = example_wli, OF _ refl]
    by (simp add: n Let_def)
qed

subsection \<open>The App-Version Resolver\<close>

lemma wli_newer_idem: "wli_newer cmp (wli_newer cmp latest app) app = wli_newer cmp latest app"
  by (simp add: wli_newer_def)

lemma wli_scanWorkloads_eq:
  "wli_scanWorkloads cmp wli app aws latest =
     (if list_ex (\<lambda>aw. ref_Version aw = wli_Version wli \<and>
                        appv_AppName app @ ''-'' @ ref_Name aw = wli_WorkloadName wli) aws
      then wli_newer cmp latest app else latest)"
  by (induction aws arbitrary: latest) (simp_all add: Let_def wli_newer_idem)

lemma wli_scanApps_Cons:
  "wli_scanApps cmp wli (app # rest) latest =
     wli_scanApps cmp wli rest (if wli_matches wli app then wli_newer cmp latest app else latest)"
  by (simp add: wli_scanWorkloads_eq wli_matches_def)

lemma wli_scanApps_no_match:
  "\<forall>a\<in>set apps. \<not> wli_matches wli a \<Longrightarrow> wli_scanApps cmp wli apps latest = latest"
  by (induction apps arbitrary: latest) (simp_all add: wli_scanApps_Cons del: wli_scanApps.simps(2))

lemma semver_parse_unprefixed: "v = [] \<or> hd v \<noteq> CHR ''v'' \<Longrightarrow> semver_parse v = None"
  by (cases v) (simp_all add: semver_parse_def)

lemma semver_Compare_unprefixed:
  "v = [] \<or> hd v \<noteq> CHR ''v'' \<Longrightarrow> w = [] \<or> hd w \<noteq> CHR ''v'' \<Longrightarrow> semver_Compare v w = 0"
  by (simp add: semver_Compare_def semver_parse_unprefixed)

text \<open>
  C1. The resolver hands the version strings of the application versions to
  \<^verbatim>\<open>semver.Compare\<close> as they are. Without the leading \<^verbatim>\<open>v\<close> that the comparison requires,
  \<open>1.2.0\<close> and \<open>1.10.0\<close> compare equal, and of two matching application versions the
  resolver returns the one listed first: \<open>1.2.0\<close> when it comes first, \<open>1.10.0\<close> when
  the list is reversed. It selects the greater semantic version, whatever the order of the
  list, only for versions written \<open>v1.2.0\<close> and \<open>v1.10.0\<close>.
\<close>

theorem resolver_unprefixed_versions:
  "wli_matches example_wli (example_appv ''1.2.0'') \<and>
   wli_matches example_wli (example_appv ''1.10.0'') \<and>
   semver_Compare ''1.2.0'' ''1.10.0'' = 0 \<and>
   wli_getAppVersionForWorkloadInstance
     (example_wli_env example_wli [example_appv ''1.2.0'', example_appv ''1.10.0''] StateProgressing)
     example_wli
     = (True, example_appv ''1.2.0'', None) \<and>
   wli_getAppVersionForWorkloadInstance
     (example_wli_env example_wli [example_appv ''1.10.0'', example_appv ''1.2.0''] StateProgressing)
     example_wli
     = (True, example_appv ''1.10.0'', None) \<and>
   semver_Compare ''v1.2.0'' ''v1.10.0'' = - 1 \<and>
   wli_getAppVersionForWorkloadInstance
     (example_wli_env example_wli [example_appv ''v1.2.0'', example_appv ''v1.10.0''] StateProgressing)
     example_wli
     = (True, example_appv ''v1.10.0'', None) \<and>
   wli_getAppVersionForWorkloadInstance
     (example_wli_env example_wli [example_appv ''v1.10.0'', example_appv ''v1.2.0''] StateProgressing)
     example_wli
     = (True, example_appv ''v1.10.0'', None)"
proof -
  have m: "wli_matches example_wli (example_appv v)" for v
    by (simp add: wli_matches_def example_defs)
  have c0: "semver_Compare ''1.2.0'' ''1.10.0'' = 0" "semver_Compare ''1.10.0'' ''1.2.0'' = 0"
    by (simp_all add: semver_Compare_unprefixed)
  have c1: "semver_Compare ''v1.2.0'' ''v1.10.0'' = - 1" "semver_Compare ''v1.10.0'' ''v1.2.0'' = 1"
    by (simp_all add: semver_defs)
  have r: "wli_getAppVersionForWorkloadInstance
             (example_wli_env example_wli [example_appv u, example_appv v] StateProgressing)
             example_wli
           = (True, if semver_Compare u v < 0 then example_appv v else example_appv u, None)"
    if "u \<noteq> []" "v \<noteq> []" for u v
    using that
    by (simp add: wli_getAppVersionForWorkloadInstance_def wli_newer_def
          empty_KeptnAppVersion_def example_defs)
  show ?thesis
    using m c0 c1 r [of "''1.2.0''" "''1.10.0''"] r [of "''1.10.0''" "''1.2.0''"]
      r [of "''v1.2.0''" "''v1.10.0''"] r [of "''v1.10.0''" "''v1.2.0''"]
    by simp
qed

lemma wli_SetStartTime_identity [simp]:
  "wli_Namespace (wli_SetStartTime t w) = wli_Namespace w"
  "wli_matches (wli_SetStartTime t w) a = wli_matches w a"
  by (simp_all add: wli_SetStartTime_def wli_matches_def)

lemma resolver_not_found:
  assumes "wli_List env (wli_Namespace wli) = Inr apps"
    and "\<forall>a\<in>set apps. \<not> wli_matches wli a"
  shows "wli_getAppVersionForWorkloadInstance env wli = (False, empty_KeptnAppVersion, None)"
  using assms
  by (simp add: wli_getAppVersionForWorkloadInstance_def wli_scanApps_no_match
        empty_KeptnAppVersion_def)

text \<open>
  C10. For a workload instance that was fetched, whatever its own status and so also when it
  is completed, the resolution of the application version comes first: when the namespace
  lists no matching application version the reconcile returns an error and a requeue after 10
  seconds, having checked none of the instance's phases, written nothing and emitted no
  metric.
\<close>

theorem gate_before_phase_checks:
  assumes "wli_Get env = GetOk w0"
    and "wli_List env (wli_Namespace w0) = Inr apps"
    and "\<forall>a\<in>set apps. \<not> wli_matches w0 a"
  shows "res (wli_Reconcile env ph r) = \<lparr>Requeue = True, RequeueAfter = 10\<rparr> \<and>
         err (wli_Reconcile env ph r)
           = Some ''could not find AppVersion for KeptnWorkloadInstance'' \<and>
         callbacks (effects (wli_Reconcile env ph r)) = [] \<and>
         status_writes (effects (wli_Reconcile env ph r)) = [] \<and>
         counter_samples (effects (wli_Reconcile env ph r)) = [] \<and>
         events (effects (wli_Reconcile env ph r)) = [(''Warning'', ''AppVersionNotFound'')]"
proof -
  have "wli_getAppVersionForWorkloadInstance env (wli_SetStartTime (wli_now env) w0)
          = (False, empty_KeptnAppVersion, None)"
    using assms(2,3) by (intro resolver_not_found [where apps = apps]) simp_all
  then show ?thesis
    using assms(1) by (simp add: wli_Reconcile_def Let_def wli_recordEvent_def)
qed

theorem gate_before_phase_checks_witness:
  "wli_Get (example_wli_env example_wli_completed [] StateSucceeded) = GetOk example_wli_completed \<and>
   wli_Status example_wli_completed = StateSucceeded \<and>
   wli_IsEndTimeSet example_wli_completed \<and>
   wli_IsPostDeploymentEvaluationSucceeded example_wli_completed \<and>
   wli_List (example_wli_env example_wli_completed [] StateSucceeded)
     (wli_Namespace example_wli_completed) = Inr [] \<and>
   res (wli_Reconcile (example_wli_env example_wli_completed [] StateSucceeded)
          example_phases Map.empty)
     = \<lparr>Requeue = True, RequeueAfter = 10\<rparr> \<and>
   err (wli_Reconcile (example_wli_env example_wli_completed [] StateSucceeded)
          example_phases Map.empty)
     = Some ''could not find AppVersion for KeptnWorkloadInstance''"
proof -
  have g: "wli_Get (example_wli_env example_wli_completed [] StateSucceeded)
             = GetOk example_wli_completed"
    by (simp add: example_wli_env_def)
  have l: "wli_List (example_wli_env example_wli_completed [] StateSucceeded)
             (wli_Namespace example_wli_completed) = Inr []"
    by (simp add: example_wli_env_def)
  have n: "\<forall>a\<in>set []. \<not> wli_matches example_wli_completed a"
    by simp
  have c: "wli_Status example_wli_completed = StateSucceeded"
    "wli_IsEndTimeSet example_wli_completed"
    "wli_IsPostDeploymentEvaluationSucceeded example_wli_completed"
    by (simp_all add: example_wli_completed_def example_wli_def wli_accessor_defs)
  show ?thesis
    using g l c gate_before_phase_checks [OF g l n, of example_phases Map.empty] by simp
qed

subsection \<open>Callbacks of the phase driver and of the parts of Reconcile\<close>

lemma wli_handlePhase_callbacks:
  "callbacks (effects (wli_handlePhase env r w phase span phaseFailed reconcilePhase)) =
     (if phaseFailed (w\<lparr>wli_CurrentPhase := ShortName phase\<rparr>) then []
      else [(phase, w\<lparr>wli_CurrentPhase := ShortName phase\<rparr>)])"
proof (cases "phaseFailed (w\<lparr>wli_CurrentPhase := ShortName phase\<rparr>)")
  case True
  then show ?thesis
    by (simp add: wli_handlePhase_def Let_def split_beta wli_recordEvent_def)
next
  case False
  obtain state e w2 where cb: "reconcilePhase (w\<lparr>wli_CurrentPhase := ShortName phase\<rparr>) = ((state, e), w2)"
    by (metis prod.exhaust)
  show ?thesis
    using False cb
    by (cases e) (simp_all add: wli_handlePhase_def Let_def split_beta wli_recordEvent_def)
qed


lemma wli_Completed_callbacks: "callbacks (effects (wli_Completed env ph r w span)) = []"
  by (cases "wli_Update env (if \<not> wli_IsEndTimeSet w
                then wli_SetEndTime (wli_now env)
                       (w\<lparr>wli_CurrentPhase := ShortName (PhaseCompleted ph),
                          wli_Status := StateSucceeded\<rparr>)
                else w)")
     (simp_all add: wli_Completed_def Let_def wli_recordEvent_def)



lemma first_unfinished_simps [simp]:
  "first_unfinished [] e = None"
  "first_unfinished ((p, succeeded) # rest) e =
     (if \<not> succeeded e then Some p else first_unfinished rest e)"
  by (simp_all add: first_unfinished_def)

lemma wli_untouched_refl [simp]: "wli_untouched w w"
  by (simp add: wli_untouched_def)

lemma wli_untouched_trans: "wli_untouched w w1 \<Longrightarrow> wli_untouched w1 w2 \<Longrightarrow> wli_untouched w w2"
  by (simp add: wli_untouched_def)

lemma wli_untouched_promote [simp]:
  "wli_PreDeploymentStatus w = StatePending
     \<Longrightarrow> wli_untouched w (w\<lparr>wli_PreDeploymentStatus := StateProgressing\<rparr>)"
  "wli_PreDeploymentEvaluationStatus w = StatePending
     \<Longrightarrow> wli_untouched w (w\<lparr>wli_PreDeploymentEvaluationStatus := StateProgressing\<rparr>)"
  "wli_DeploymentStatus w = StatePending
     \<Longrightarrow> wli_untouched w (w\<lparr>wli_DeploymentStatus := StateProgressing\<rparr>)"
  "wli_PostDeploymentStatus w = StatePending
     \<Longrightarrow> wli_untouched w (w\<lparr>wli_PostDeploymentStatus := StateProgressing\<rparr>)"
  "wli_untouched w (w\<lparr>wli_TraceId := t\<rparr>)"
  "wli_untouched w (w\<lparr>wli_CurrentPhase := c\<rparr>)"
  by (simp_all add: wli_untouched_def wli_accessor_defs)

lemma wli_returns_self:
  "wli_untouched w w' \<Longrightarrow>
   wli_returns_handlePhase env span w p (wli_handlePhase env r w' p span phaseFailed reconcilePhase)"
  unfolding wli_returns_handlePhase_def by blast

lemma wli_returns_prepend:
  "callbacks es = [] \<Longrightarrow>
   wli_returns_handlePhase env span w p (prepend es out)
     = wli_returns_handlePhase env span w p out"
  unfolding wli_returns_handlePhase_def by simp

lemma wli_returns_from:
  "wli_untouched w w1 \<Longrightarrow> wli_returns_handlePhase env span w1 p out
   \<Longrightarrow> wli_returns_handlePhase env span w p out"
  unfolding wli_returns_handlePhase_def by (meson wli_untouched_trans)

lemma wli_untouched_accessors:
  assumes "wli_untouched w w'"
  shows "wli_IsPreDeploymentSucceeded w' = wli_IsPreDeploymentSucceeded w"
    "wli_IsPreDeploymentEvaluationSucceeded w' = wli_IsPreDeploymentEvaluationSucceeded w"
    "wli_IsDeploymentSucceeded w' = wli_IsDeploymentSucceeded w"
    "wli_IsPostDeploymentSucceeded w' = wli_IsPostDeploymentSucceeded w"
    "wli_IsPostDeploymentEvaluationSucceeded w' = wli_IsPostDeploymentEvaluationSucceeded w"
  using assms by (simp_all add: wli_untouched_def wli_IsPostDeploymentEvaluationSucceeded_def)

lemma wli_PostEvaluation_walk:
  "(callbacks (effects (wli_PostEvaluation env ph r w span)) = [] \<or>
    (\<exists>p. first_unfinished [(PhaseAppPostEvaluation ph, wli_IsPostDeploymentEvaluationSucceeded)] w = Some p \<and>
         wli_returns_handlePhase env span w p (wli_PostEvaluation env ph r w span))) \<and>
   ((\<forall>x. wli_Update env x = None) \<longrightarrow>
    (\<forall>p. first_unfinished [(PhaseAppPostEvaluation ph, wli_IsPostDeploymentEvaluationSucceeded)] w = Some p \<longrightarrow>
         wli_returns_handlePhase env span w p (wli_PostEvaluation env ph r w span)))"
proof -
  have step: "(callbacks (effects (if \<not> wli_IsPostDeploymentEvaluationSucceeded w' then wli_handlePhase env r w' (PhaseAppPostEvaluation ph) span f cb
                                  else wli_Completed env ph r w' span)) = [] \<or>
      (\<exists>p. first_unfinished [(PhaseAppPostEvaluation ph, wli_IsPostDeploymentEvaluationSucceeded)] w = Some p \<and>
           wli_returns_handlePhase env span w p
             (if \<not> wli_IsPostDeploymentEvaluationSucceeded w' then wli_handlePhase env r w' (PhaseAppPostEvaluation ph) span f cb
              else wli_Completed env ph r w' span))) \<and>
     ((\<forall>x. wli_Update env x = None) \<longrightarrow>
      (\<forall>p. first_unfinished [(PhaseAppPostEvaluation ph, wli_IsPostDeploymentEvaluationSucceeded)] w = Some p \<longrightarrow>
           wli_returns_handlePhase env span w p
             (if \<not> wli_IsPostDeploymentEvaluationSucceeded w' then wli_handlePhase env r w' (PhaseAppPostEvaluation ph) span f cb
              else wli_Completed env ph r w' span)))"
    if u: "wli_untouched w w'" for w' f cb
  proof (cases "wli_IsPostDeploymentEvaluationSucceeded w'")
    case False
    then show ?thesis
      using wli_untouched_accessors [OF u] by (simp add: wli_returns_self [OF u])
  next
    case True
    show ?thesis
      using True wli_untouched_accessors [OF u] wli_Completed_callbacks [of env ph r w' span]
      by (auto intro: wli_returns_from [OF u])
  qed
  show ?thesis
  proof (cases "wli_PostDeploymentStatus w = StatePending")
    case False
    then show ?thesis
      using step [OF wli_untouched_refl] by (simp add: wli_PostEvaluation_def Let_def)
  next
    case True
    let ?w1 = "w\<lparr>wli_PostDeploymentStatus := StateProgressing\<rparr>"
    have u: "wli_untouched w ?w1" using True by simp
    show ?thesis
    proof (cases "wli_Update env ?w1")
      case (Some e)
      then show ?thesis using True by (auto simp add: wli_PostEvaluation_def Let_def)
    next
      case None
      then show ?thesis
        using True step [OF u] by (simp add: wli_PostEvaluation_def Let_def wli_returns_prepend)
    qed
  qed
qed

lemma wli_PostDeployment_walk:
  "(callbacks (effects (wli_PostDeployment env ph r w span)) = [] \<or>
    (\<exists>p. first_unfinished [(PhaseWorkloadPostDeployment ph, wli_IsPostDeploymentSucceeded),
      (PhaseAppPostEvaluation ph, wli_IsPostDeploymentEvaluationSucceeded)] w = Some p \<and>
         wli_returns_handlePhase env span w p (wli_PostDeployment env ph r w span))) \<and>
   ((\<forall>x. wli_Update env x = None) \<longrightarrow>
    (\<forall>p. first_unfinished [(PhaseWorkloadPostDeployment ph, wli_IsPostDeploymentSucceeded),
      (PhaseAppPostEvaluation ph, wli_IsPostDeploymentEvaluationSucceeded)] w = Some p \<longrightarrow>
         wli_returns_handlePhase env span w p (wli_PostDeployment env ph r w span)))"
proof -
  have step: "(callbacks (effects (if \<not> wli_IsPostDeploymentSucceeded w' then wli_handlePhase env r w' (PhaseWorkloadPostDeployment ph) span f cb
                                  else wli_PostEvaluation env ph r w' span)) = [] \<or>
      (\<exists>p. first_unfinished [(PhaseWorkloadPostDeployment ph, wli_IsPostDeploymentSucceeded),
      (PhaseAppPostEvaluation ph, wli_IsPostDeploymentEvaluationSucceeded)] w = Some p \<and>
           wli_returns_handlePhase env span w p
             (if \<not> wli_IsPostDeploymentSucceeded w' then wli_handlePhase env r w' (PhaseWorkloadPostDeployment ph) span f cb
              else wli_PostEvaluation env ph r w' span))) \<and>
     ((\<forall>x. wli_Update env x = None) \<longrightarrow>
      (\<forall>p. first_unfinished [(PhaseWorkloadPostDeployment ph, wli_IsPostDeploymentSucceeded),
      (PhaseAppPostEvaluation ph, wli_IsPostDeploymentEvaluationSucceeded)] w = Some p \<longrightarrow>
           wli_returns_handlePhase env span w p
             (if \<not> wli_IsPostDeploymentSucceeded w' then wli_handlePhase env r w' (PhaseWorkloadPostDeployment ph) span f cb
              else wli_PostEvaluation env ph r w' span)))"
    if u: "wli_untouched w w'" for w' f cb
  proof (cases "wli_IsPostDeploymentSucceeded w'")
    case False
    then show ?thesis
      using wli_untouched_accessors [OF u] by (simp add: wli_returns_self [OF u])
  next
    case True
    show ?thesis
      using True wli_untouched_accessors [OF u] wli_PostEvaluation_walk [of env ph r w' span]
      by (auto intro: wli_returns_from [OF u])
  qed
  show ?thesis
  proof (cases "wli_PostDeploymentStatus w = StatePending")
    case False
    then show ?thesis
      using step [OF wli_untouched_refl] by (simp add: wli_PostDeployment_def Let_def)
  next
    case True
    let ?w1 = "w\<lparr>wli_PostDeploymentStatus := StateProgressing\<rparr>"
    have u: "wli_untouched w ?w1" using True by simp
    show ?thesis
    proof (cases "wli_Update env ?w1")
      case (Some e)
      then show ?thesis using True by (auto simp add: wli_PostDeployment_def Let_def)
    next
      case None
      then show ?thesis
        using True step [OF u] by (simp add: wli_PostDeployment_def Let_def wli_returns_prepend)
    qed
  qed
qed

lemma wli_Deployment_walk:
  "(callbacks (effects (wli_Deployment env ph r w span)) = [] \<or>
    (\<exists>p. first_unfinished [(PhaseWorkloadDeployment ph, wli_IsDeploymentSucceeded),
      (PhaseWorkloadPostDeployment ph, wli_IsPostDeploymentSucceeded),
      (PhaseAppPostEvaluation ph, wli_IsPostDeploymentEvaluationSucceeded)] w = Some p \<and>
         wli_returns_handlePhase env span w p (wli_Deployment env ph r w span))) \<and>
   ((\<forall>x. wli_Update env x = None) \<longrightarrow>
    (\<forall>p. first_unfinished [(PhaseWorkloadDeployment ph, wli_IsDeploymentSucceeded),
      (PhaseWorkloadPostDeployment ph, wli_IsPostDeploymentSucceeded),
      (PhaseAppPostEvaluation ph, wli_IsPostDeploymentEvaluationSucceeded)] w = Some p \<longrightarrow>
         wli_returns_handlePhase env span w p (wli_Deployment env ph r w span)))"
proof -
  have step: "(callbacks (effects (if \<not> wli_IsDeploymentSucceeded w' then wli_handlePhase env r w' (PhaseWorkloadDeployment ph) span f cb
                                  else wli_PostDeployment env ph r w' span)) = [] \<or>
      (\<exists>p. first_unfinished [(PhaseWorkloadDeployment ph, wli_IsDeploymentSucceeded),
      (PhaseWorkloadPostDeployment ph, wli_IsPostDeploymentSucceeded),
      (PhaseAppPostEvaluation ph, wli_IsPostDeploymentEvaluationSucceeded)] w = Some p \<and>
           wli_returns_handlePhase env span w p
             (if \<not> wli_IsDeploymentSucceeded w' then wli_handlePhase env r w' (PhaseWorkloadDeployment ph) span f cb
              else wli_PostDeployment env ph r w' span))) \<and>
     ((\<forall>x. wli_Update env x = None) \<longrightarrow>
      (\<forall>p. first_unfinished [(PhaseWorkloadDeployment ph, wli_IsDeploymentSucceeded),
      (PhaseWorkloadPostDeployment ph, wli_IsPostDeploymentSucceeded),
      (PhaseAppPostEvaluation ph, wli_IsPostDeploymentEvaluationSucceeded)] w = Some p \<longrightarrow>
           wli_returns_handlePhase env span w p
             (if \<not> wli_IsDeploymentSucceeded w' then wli_handlePhase env r w' (PhaseWorkloadDeployment ph) span f cb
              else wli_PostDeployment env ph r w' span)))"
    if u: "wli_untouched w w'" for w' f cb
  proof (cases "wli_IsDeploymentSucceeded w'")
    case False
    then show ?thesis
      using wli_untouched_accessors [OF u] by (simp add: wli_returns_self [OF u])
  next
    case True
    show ?thesis
      using True wli_untouched_accessors [OF u] wli_PostDeployment_walk [of env ph r w' span]
      by (auto intro: wli_returns_from [OF u])
  qed
  show ?thesis
  proof (cases "wli_DeploymentStatus w = StatePending")
    case False
    then show ?thesis
      using step [OF wli_untouched_refl] by (simp add: wli_Deployment_def Let_def)
  next
    case True
    let ?w1 = "w\<lparr>wli_DeploymentStatus := StateProgressing\<rparr>"
    have u: "wli_untouched w ?w1" using True by simp
    show ?thesis
    proof (cases "wli_Update env ?w1")
      case (Some e)
      then show ?thesis using True by (auto simp add: wli_Deployment_def Let_def)
    next
      case None
      then show ?thesis
        using True step [OF u] by (simp add: wli_Deployment_def Let_def wli_returns_prepend)
    qed
  qed
qed

lemma wli_PreEvaluation_walk:
  "(callbacks (effects (wli_PreEvaluation env ph r w span)) = [] \<or>
    (\<exists>p. first_unfinished [(PhaseAppPreEvaluation ph, wli_IsPreDeploymentEvaluationSucceeded),
      (PhaseWorkloadDeployment ph, wli_IsDeploymentSucceeded),
      (PhaseWorkloadPostDeployment ph, wli_IsPostDeploymentSucceeded),
      (PhaseAppPostEvaluation ph, wli_IsPostDeploymentEvaluationSucceeded)] w = Some p \<and>
         wli_returns_handlePhase env span w p (wli_PreEvaluation env ph r w span))) \<and>
   ((\<forall>x. wli_Update env x = None) \<longrightarrow>
    (\<forall>p. first_unfinished [(PhaseAppPreEvaluation ph, wli_IsPreDeploymentEvaluationSucceeded),
      (PhaseWorkloadDeployment ph, wli_IsDeploymentSucceeded),
      (PhaseWorkloadPostDeployment ph, wli_IsPostDeploymentSucceeded),
      (PhaseAppPostEvaluation ph, wli_IsPostDeploymentEvaluationSucceeded)] w = Some p \<longrightarrow>
         wli_returns_handlePhase env span w p (wli_PreEvaluation env ph r w span)))"
proof -
  have step: "(callbacks (effects (if \<not> wli_IsPreDeploymentEvaluationSucceeded w' then wli_handlePhase env r w' (PhaseAppPreEvaluation ph) span f cb
                                  else wli_Deployment env ph r w' span)) = [] \<or>
      (\<exists>p. first_unfinished [(PhaseAppPreEvaluation ph, wli_IsPreDeploymentEvaluationSucceeded),
      (PhaseWorkloadDeployment ph, wli_IsDeploymentSucceeded),
      (PhaseWorkloadPostDeployment ph, wli_IsPostDeploymentSucceeded),
      (PhaseAppPostEvaluation ph, wli_IsPostDeploymentEvaluationSucceeded)] w = Some p \<and>
           wli_returns_handlePhase env span w p
             (if \<not> wli_IsPreDeploymentEvaluationSucceeded w' then wli_handlePhase env r w' (PhaseAppPreEvaluation ph) span f cb
              else wli_Deployment env ph r w' span))) \<and>
     ((\<forall>x. wli_Update env x = None) \<longrightarrow>
      (\<forall>p. first_unfinished [(PhaseAppPreEvaluation ph, wli_IsPreDeploymentEvaluationSucceeded),
      (PhaseWorkloadDeployment ph, wli_IsDeploymentSucceeded),
      (PhaseWorkloadPostDeployment ph, wli_IsPostDeploymentSucceeded),
      (PhaseAppPostEvaluation ph, wli_IsPostDeploymentEvaluationSucceeded)] w = Some p \<longrightarrow>
           wli_returns_handlePhase env span w p
             (if \<not> wli_IsPreDeploymentEvaluationSucceeded w' then wli_handlePhase env r w' (PhaseAppPreEvaluation ph) span f cb
              else wli_Deployment env ph r w' span)))"
    if u: "wli_untouched w w'" for w' f cb
  proof (cases "wli_IsPreDeploymentEvaluationSucceeded w'")
    case False
    then show ?thesis
      using wli_untouched_accessors [OF u] by (simp add: wli_returns_self [OF u])
  next
    case True
    show ?thesis
      using True wli_untouched_accessors [OF u] wli_Deployment_walk [of env ph r w' span]
      by (auto intro: wli_returns_from [OF u])
  qed
  show ?thesis
  proof (cases "wli_PreDeploymentEvaluationStatus w = StatePending")
    case False
    then show ?thesis
      using step [OF wli_untouched_refl] by (simp add: wli_PreEvaluation_def Let_def)
  next
    case True
    let ?w1 = "w\<lparr>wli_PreDeploymentEvaluationStatus := StateProgressing\<rparr>"
    have u: "wli_untouched w ?w1" using True by simp
    show ?thesis
    proof (cases "wli_Update env ?w1")
      case (Some e)
      then show ?thesis using True by (auto simp add: wli_PreEvaluation_def Let_def)
    next
      case None
      then show ?thesis
        using True step [OF u] by (simp add: wli_PreEvaluation_def Let_def wli_returns_prepend)
    qed
  qed
qed


lemma wli_Started_quiet [simp]:
  "callbacks (snd (wli_Started r w appVersion phase)) = []"
  "status_writes (snd (wli_Started r w appVersion phase)) = []"
  "counter_samples (snd (wli_Started r w appVersion phase)) = []"
  "duration_samples (snd (wli_Started r w appVersion phase)) = []"
  by (simp_all add: wli_Started_def split_beta Let_def wli_recordEvent_def)

lemma appv_Started_quiet [simp]:
  "callbacks (snd (appv_Started r a phase)) = []"
  "status_writes (snd (appv_Started r a phase)) = []"
  "counter_samples (snd (appv_Started r a phase)) = []"
  "duration_samples (snd (appv_Started r a phase)) = []"
  by (simp_all add: appv_Started_def split_beta Let_def appv_recordEvent_def)

lemma wli_PreDeployment_walk:
  "(callbacks (effects (wli_PreDeployment env ph r w appVersion span)) = [] \<or>
    (\<exists>p. first_unfinished (wli_phase_order ph) w = Some p \<and>
         wli_returns_handlePhase env span w p (wli_PreDeployment env ph r w appVersion span))) \<and>
   ((\<forall>x. wli_Update env x = None) \<longrightarrow>
    (\<forall>p. first_unfinished (wli_phase_order ph) w = Some p \<longrightarrow>
         wli_returns_handlePhase env span w p (wli_PreDeployment env ph r w appVersion span)))"
proof -
  define w2 where "w2 =
     (if length (wli_TraceId (if wli_PreDeploymentStatus w = StatePending
                then w\<lparr>wli_PreDeploymentStatus := StateProgressing\<rparr> else w)) < 1
      then (if wli_PreDeploymentStatus w = StatePending
                then w\<lparr>wli_PreDeploymentStatus := StateProgressing\<rparr> else w)
             \<lparr>wli_TraceId := appv_TraceId appVersion\<rparr>
      else (if wli_PreDeploymentStatus w = StatePending
                then w\<lparr>wli_PreDeploymentStatus := StateProgressing\<rparr> else w))"
  define body where "body =
     (let (r1, e1) = wli_Started r w2 appVersion (PhaseWorkloadPreDeployment ph)
      in prepend e1
           (if \<not> wli_IsPreDeploymentSucceeded w2
            then wli_handlePhase env r1 w2 (PhaseWorkloadPreDeployment ph) span
                   wli_IsPreDeploymentFailed
                   (\<lambda>w. wli_reconcilePrePostDeployment env w PreDeploymentCheckType)
            else wli_PreEvaluation env ph r1 w2 span))"
  have u: "wli_untouched w w2"
    by (simp add: w2_def wli_untouched_def wli_accessor_defs)
  have body: "(callbacks (effects body) = [] \<or>
      (\<exists>p. first_unfinished (wli_phase_order ph) w = Some p \<and>
           wli_returns_handlePhase env span w p body)) \<and>
     ((\<forall>x. wli_Update env x = None) \<longrightarrow>
      (\<forall>p. first_unfinished (wli_phase_order ph) w = Some p \<longrightarrow>
           wli_returns_handlePhase env span w p body))"
  proof (cases "wli_IsPreDeploymentSucceeded w2")
    case False
    then show ?thesis
      using wli_untouched_accessors [OF u]
      by (simp add: body_def split_beta wli_returns_prepend wli_returns_self [OF u]
            wli_phase_order_def)
  next
    case True
    show ?thesis
      using True wli_untouched_accessors [OF u]
        wli_PreEvaluation_walk [of env ph "fst (wli_Started r w2 appVersion
          (PhaseWorkloadPreDeployment ph))" w2 span]
      by (auto simp add: body_def split_beta wli_returns_prepend wli_phase_order_def
            intro: wli_returns_from [OF u])
  qed
  have eq: "wli_PreDeployment env ph r w appVersion span =
     (if wli_PreDeploymentStatus w = StatePending \<or>
         length (wli_TraceId (if wli_PreDeploymentStatus w = StatePending
                then w\<lparr>wli_PreDeploymentStatus := StateProgressing\<rparr> else w)) < 1
      then (case wli_Update env w2 of
              Some e \<Rightarrow>
                \<lparr>res = \<lparr>Requeue = False, RequeueAfter = 0\<rparr>, err = Some e, obj = w2,
                 spans = r, effects = [StatusUpdate w2]\<rparr>
            | None \<Rightarrow> prepend [StatusUpdate w2] body)
      else body)"
    unfolding wli_PreDeployment_def body_def w2_def Let_def by (rule refl)
  show ?thesis
    unfolding eq using body
    by (cases "wli_Update env w2") (simp_all add: wli_returns_prepend)
qed


lemma wli_returns_wrap [simp]:
  "wli_returns_handlePhase env span w p (out\<lparr>effects := SpanStart s # effects out @ [SpanEnd s']\<rparr>)
     = wli_returns_handlePhase env span w p out"
  unfolding wli_returns_handlePhase_def by simp

lemma wli_first_unfinished_SetStartTime [simp]:
  "first_unfinished (wli_phase_order ph) (wli_SetStartTime t w)
     = first_unfinished (wli_phase_order ph) w"
  by (simp add: wli_phase_order_def wli_accessor_defs)

lemma wli_returns_callbacks:
  assumes "wli_returns_handlePhase env span w p out"
  shows "length (callbacks (effects out)) \<le> 1"
    and "\<forall>(q, x)\<in>set (callbacks (effects out)). q = p \<and> wli_untouched w x"
proof -
  obtain r w' f cb where u: "wli_untouched w w'"
    and c: "callbacks (effects out) = callbacks (effects (wli_handlePhase env r w' p span f cb))"
    using assms unfolding wli_returns_handlePhase_def by blast
  have u': "wli_untouched w (w'\<lparr>wli_CurrentPhase := ShortName p\<rparr>)"
    using u by (simp add: wli_untouched_def wli_accessor_defs)
  show "length (callbacks (effects out)) \<le> 1"
    unfolding c by (simp add: wli_handlePhase_callbacks)
  show "\<forall>(q, x)\<in>set (callbacks (effects out)). q = p \<and> wli_untouched w x"
    unfolding c using u' by (simp add: wli_handlePhase_callbacks)
qed

lemma wli_Reconcile_walk:
  assumes "wli_Get env = GetOk w0"
  shows "callbacks (effects (wli_Reconcile env ph r)) = [] \<or>
    (\<exists>p. first_unfinished (wli_phase_order ph) w0 = Some p \<and>
         wli_returns_handlePhase env ''reconcile_workload_instance''
           (wli_SetStartTime (wli_now env) w0) p (wli_Reconcile env ph r))"
proof -
  obtain found a e where R:
    "wli_getAppVersionForWorkloadInstance env (wli_SetStartTime (wli_now env) w0) = (found, a, e)"
    by (metis prod.exhaust)
  show ?thesis
  proof (cases "e = None \<and> found \<and> appv_PreDeploymentEvaluationStatus a = StateSucceeded")
    case True
    then show ?thesis
      using assms R
        wli_PreDeployment_walk [of env ph r "wli_SetStartTime (wli_now env) w0" a
          "''reconcile_workload_instance''"]
      by (auto simp add: wli_Reconcile_def Let_def IsSucceeded_def)
  next
    case False
    then show ?thesis
      using assms R
      by (cases e; cases found)
         (simp_all add: wli_Reconcile_def Let_def IsSucceeded_def IsFailed_def wli_recordEvent_def)
  qed
qed




lemma appv_returns_wrap [simp]:
  "appv_returns_handlePhase env span a p (out\<lparr>effects := SpanStart s # effects out @ [SpanEnd s']\<rparr>)
     = appv_returns_handlePhase env span a p out"
  unfolding appv_returns_handlePhase_def by simp






lemmas wli_Reconcile_defs = wli_Reconcile_def wli_part_defs wli_handlePhase_def
  wli_accessor_defs wli_span_defs wli_resolver_defs

lemmas appv_Reconcile_defs = appv_Reconcile_def appv_Phases_def appv_Started_def
  appv_Completed_def appv_handlePhase_def appv_accessor_defs appv_span_defs


subsection \<open>The post-deployment evaluation of the workload instance\<close>

lemma wli_PostEvaluation_callbacks:
  "\<forall>(p, x)\<in>set (callbacks (effects (wli_PostEvaluation env ph r w span))).
     p = PhaseAppPostEvaluation ph \<and>
     x = w\<lparr>wli_PostDeploymentStatus :=
              (if wli_PostDeploymentStatus w = StatePending then StateProgressing
               else wli_PostDeploymentStatus w),
            wli_CurrentPhase := ShortName (PhaseAppPostEvaluation ph)\<rparr>"
proof (cases "wli_PostDeploymentStatus w = StatePending")
  case False
  then show ?thesis
    by (simp add: wli_PostEvaluation_def Let_def wli_handlePhase_callbacks wli_Completed_callbacks)
next
  case True
  then show ?thesis
    by (cases "wli_Update env (w\<lparr>wli_PostDeploymentStatus := StateProgressing\<rparr>)")
       (simp_all add: wli_PostEvaluation_def Let_def wli_handlePhase_callbacks
          wli_Completed_callbacks)
qed

lemma wli_PostEvaluation_first_write:
  assumes "wli_PostDeploymentStatus w = StatePending"
  shows "take 1 (effects (wli_PostEvaluation env ph r w span))
           = [StatusUpdate (w\<lparr>wli_PostDeploymentStatus := StateProgressing\<rparr>)]"
  using assms
  by (cases "wli_Update env (w\<lparr>wli_PostDeploymentStatus := StateProgressing\<rparr>)")
     (simp_all add: wli_PostEvaluation_def Let_def)

lemma wli_Reconcile_callback_evaluation_status:
  assumes "wli_Get env = GetOk w0"
  shows "\<forall>(p, x)\<in>set (callbacks (effects (wli_Reconcile env ph r))).
           wli_PostDeploymentEvaluationStatus x = wli_PostDeploymentEvaluationStatus w0"
proof (cases "callbacks (effects (wli_Reconcile env ph r)) = []")
  case True
  then show ?thesis by simp
next
  case False
  then obtain p where
    rt: "wli_returns_handlePhase env ''reconcile_workload_instance''
           (wli_SetStartTime (wli_now env) w0) p (wli_Reconcile env ph r)"
    using wli_Reconcile_walk [OF assms, of ph r] by blast
  have "wli_PostDeploymentEvaluationStatus (wli_SetStartTime (wli_now env) w0)
          = wli_PostDeploymentEvaluationStatus w0"
    by (simp add: wli_SetStartTime_def)
  then show ?thesis
    using wli_returns_callbacks(2) [OF rt] by (auto simp add: wli_untouched_def)
qed

text \<open>
  C9. In the post-deployment-evaluation section of the workload-instance reconcile the field
  tested for Pending and promoted to Progressing is \<open>PostDeploymentStatus\<close>, the status
  of the post-deployment tasks: when it is Pending the section first writes the entity with
  that field Progressing. The entity the callback of the phase receives is the one that
  entered the section with at most that field promoted and the current phase set by the
  driver; every other field, \<open>PostDeploymentEvaluationStatus\<close> among them, is as it was.
  Over a whole reconcile, no callback ever sees a \<open>PostDeploymentEvaluationStatus\<close> other
  than the one the entity was fetched with, so a Pending one is never made Progressing
  before the callback.
\<close>

theorem postEvaluation_promotes_task_status:
  "(wli_PostDeploymentStatus w = StatePending \<longrightarrow>
      take 1 (effects (wli_PostEvaluation env ph r w span))
        = [StatusUpdate (w\<lparr>wli_PostDeploymentStatus := StateProgressing\<rparr>)]) \<and>
   (\<forall>(p, x)\<in>set (callbacks (effects (wli_PostEvaluation env ph r w span))).
      p = PhaseAppPostEvaluation ph \<and>
      x = w\<lparr>wli_PostDeploymentStatus :=
               (if wli_PostDeploymentStatus w = StatePending then StateProgressing
                else wli_PostDeploymentStatus w),
             wli_CurrentPhase := ShortName (PhaseAppPostEvaluation ph)\<rparr>) \<and>
   (\<forall>w0. wli_Get env = GetOk w0 \<longrightarrow>
      (\<forall>(p, x)\<in>set (callbacks (effects (wli_Reconcile env ph r))).
         wli_PostDeploymentEvaluationStatus x = wli_PostDeploymentEvaluationStatus w0))"
  using wli_PostEvaluation_first_write [of w env ph r span]
    wli_PostEvaluation_callbacks [of env ph r w span]
    wli_Reconcile_callback_evaluation_status [of env _ ph r]
  by blast

theorem postEvaluation_promotes_task_status_witness:
  "wli_PostDeploymentStatus (example_wli_evaluating\<lparr>wli_PostDeploymentStatus := StatePending\<rparr>)
     = StatePending \<and>
   take 1 (effects (wli_PostEvaluation
       (example_wli_env example_wli_evaluating [example_appv ''1.2.0''] StateProgressing)
       example_phases Map.empty
       (example_wli_evaluating\<lparr>wli_PostDeploymentStatus := StatePending\<rparr>)
       ''reconcile_workload_instance''))
     = [StatusUpdate (example_wli_evaluating\<lparr>wli_PostDeploymentStatus := StateProgressing\<rparr>)] \<and>
   callbacks (effects (wli_PostEvaluation
       (example_wli_env example_wli_evaluating [example_appv ''1.2.0''] StateProgressing)
       example_phases Map.empty
       (example_wli_evaluating\<lparr>wli_PostDeploymentStatus := StatePending\<rparr>)
       ''reconcile_workload_instance''))
     = [(PhaseAppPostEvaluation example_phases,
         example_wli_evaluating
           \<lparr>wli_PostDeploymentStatus := StateProgressing,
            wli_CurrentPhase := ShortName (PhaseAppPostEvaluation example_phases)\<rparr>)] \<and>
   wli_Get (example_wli_env example_wli_evaluating [example_appv ''1.2.0''] StateProgressing)
     = GetOk example_wli_evaluating \<and>
   wli_PostDeploymentEvaluationStatus example_wli_evaluating = StatePending \<and>
   map (\<lambda>(p, x). (p, wli_PostDeploymentEvaluationStatus x))
     (callbacks (effects (wli_Reconcile
        (example_wli_env example_wli_evaluating [example_appv ''1.2.0''] StateProgressing)
        example_phases Map.empty)))
     = [(PhaseAppPostEvaluation example_phases, StatePending)]"
proof -
  let ?E = "example_wli_env example_wli_evaluating [example_appv ''1.2.0''] StateProgressing"
  let ?w = "example_wli_evaluating\<lparr>wli_PostDeploymentStatus := StatePending\<rparr>"
  have p: "wli_PostDeploymentStatus ?w = StatePending"
    by simp
  have g: "wli_Get ?E = GetOk example_wli_evaluating"
    by (simp add: example_wli_env_def)
  have s: "wli_PostDeploymentEvaluationStatus example_wli_evaluating = StatePending"
    by (simp add: example_wli_evaluating_def)
  have c: "map fst (callbacks (effects (wli_PostEvaluation ?E example_phases Map.empty ?w
             ''reconcile_workload_instance'')))
           = [PhaseAppPostEvaluation example_phases]"
    by (simp add: wli_PostEvaluation_def wli_handlePhase_def wli_accessor_defs wli_span_defs
          example_defs example_wli_completed_def example_wli_evaluating_def Let_def)
  have c': "map fst (callbacks (effects (wli_Reconcile ?E example_phases Map.empty)))
           = [PhaseAppPostEvaluation example_phases]"
    by (simp add: wli_Reconcile_defs example_defs example_wli_completed_def
          example_wli_evaluating_def Let_def)
  have t: "\<And>q y. xs = [(q, y)] \<Longrightarrow> \<forall>(p, x)\<in>set xs. P p x \<Longrightarrow> P q y" for xs P
    by auto
  obtain q y where cq: "callbacks (effects (wli_PostEvaluation ?E example_phases Map.empty ?w
             ''reconcile_workload_instance'')) = [(q, y)]"
    using c by (cases "callbacks (effects (wli_PostEvaluation ?E example_phases Map.empty ?w
             ''reconcile_workload_instance''))") auto
  obtain q' y' where cq': "callbacks (effects (wli_Reconcile ?E example_phases Map.empty))
      = [(q', y')]"
    using c' by (cases "callbacks (effects (wli_Reconcile ?E example_phases Map.empty))") auto
  note T = postEvaluation_promotes_task_status [of ?w ?E example_phases Map.empty
      "''reconcile_workload_instance''"]
  have 1: "take 1 (effects (wli_PostEvaluation ?E example_phases Map.empty ?w
             ''reconcile_workload_instance''))
           = [StatusUpdate (?w\<lparr>wli_PostDeploymentStatus := StateProgressing\<rparr>)]"
    using T p by blast
  have 2: "q = PhaseAppPostEvaluation example_phases \<and>
           y = ?w\<lparr>wli_PostDeploymentStatus := StateProgressing,
                  wli_CurrentPhase := ShortName (PhaseAppPostEvaluation example_phases)\<rparr>"
    using T cq by simp
  have 3: "wli_PostDeploymentEvaluationStatus y' = StatePending"
    using T g s cq' by simp
  have 4: "q' = PhaseAppPostEvaluation example_phases"
    using c' cq' by simp
  show ?thesis
    using p g s 1 2 3 4 cq cq' by simp
qed

subsection \<open>Reconciling a completed entity again\<close>

lemma wli_PreEvaluation_all_succeeded:
  assumes "wli_IsPreDeploymentEvaluationSucceeded w" "wli_IsDeploymentSucceeded w"
    "wli_IsPostDeploymentSucceeded w" "wli_IsPostDeploymentEvaluationSucceeded w"
  shows "wli_PreEvaluation env ph r w span = wli_Completed env ph r w span"
  using assms
  by (simp add: wli_PreEvaluation_def wli_Deployment_def wli_PostDeployment_def
        wli_PostEvaluation_def wli_accessor_defs Let_def)

lemma wli_Completed_again:
  assumes "wli_EndTime w \<noteq> None"
  shows "status_writes (effects (wli_Completed env ph r w span)) = [w]"
    and "callbacks (effects (wli_Completed env ph r w span)) = []"
    and "counter_samples (effects (wli_Completed env ph r w span))
           = (if wli_Update env w = None then [w] else [])"
    and "duration_samples (effects (wli_Completed env ph r w span))
           = (if wli_Update env w = None then [(wli_EndTime w, wli_StartTime w)] else [])"
    and "err (wli_Completed env ph r w span) = wli_Update env w"
  using assms
  by (cases "wli_Update env w";
      simp add: wli_Completed_def wli_IsEndTimeSet_def Let_def wli_recordEvent_def)+

lemma wli_PreDeployment_again:
  assumes "wli_EndTime w \<noteq> None"
    and "wli_IsPreDeploymentSucceeded w" "wli_IsPreDeploymentEvaluationSucceeded w"
    "wli_IsDeploymentSucceeded w" "wli_IsPostDeploymentSucceeded w"
    "wli_IsPostDeploymentEvaluationSucceeded w"
  shows "(\<forall>x\<in>set (status_writes (effects (wli_PreDeployment env ph r w a span))).
            x\<lparr>wli_TraceId := wli_TraceId w\<rparr> = w) \<and>
         callbacks (effects (wli_PreDeployment env ph r w a span)) = [] \<and>
         (err (wli_PreDeployment env ph r w a span) = None \<longrightarrow>
            map (\<lambda>x. x\<lparr>wli_TraceId := wli_TraceId w\<rparr>)
              (counter_samples (effects (wli_PreDeployment env ph r w a span))) = [w] \<and>
            duration_samples (effects (wli_PreDeployment env ph r w a span))
              = [(wli_EndTime w, wli_StartTime w)]) \<and>
         ((\<forall>x. wli_Update env x = None) \<longrightarrow> err (wli_PreDeployment env ph r w a span) = None)"
proof -
  have p: "wli_PreDeploymentStatus w \<noteq> StatePending"
    using assms(2) by (auto simp add: wli_accessor_defs)
  have body: "(\<forall>x\<in>set (status_writes (effects (prepend es (wli_Completed env ph r' w2 span)))).
            x\<lparr>wli_TraceId := wli_TraceId w\<rparr> = w) \<and>
         callbacks (effects (prepend es (wli_Completed env ph r' w2 span))) = [] \<and>
         (err (prepend es (wli_Completed env ph r' w2 span)) = None \<longrightarrow>
            map (\<lambda>x. x\<lparr>wli_TraceId := wli_TraceId w\<rparr>)
              (counter_samples (effects (prepend es (wli_Completed env ph r' w2 span)))) = [w] \<and>
            duration_samples (effects (prepend es (wli_Completed env ph r' w2 span)))
              = [(wli_EndTime w, wli_StartTime w)]) \<and>
         ((\<forall>x. wli_Update env x = None) \<longrightarrow>
            err (prepend es (wli_Completed env ph r' w2 span)) = None)"
    if "w2\<lparr>wli_TraceId := wli_TraceId w\<rparr> = w" "wli_EndTime w2 = wli_EndTime w"
      "wli_StartTime w2 = wli_StartTime w"
      "status_writes es = [] \<or> status_writes es = [w2]" "callbacks es = []"
      "counter_samples es = []" "duration_samples es = []"
    for w2 es r'
    using that assms(1) by (auto simp add: wli_Completed_again)
  show ?thesis
  proof (cases "length (wli_TraceId w) < 1")
    case False
    have eq: "wli_PreDeployment env ph r w a span =
        prepend (snd (wli_Started r w a (PhaseWorkloadPreDeployment ph)))
          (wli_Completed env ph (fst (wli_Started r w a (PhaseWorkloadPreDeployment ph))) w span)"
      using p False assms(2-6)
      by (simp add: wli_PreDeployment_def Let_def split_beta wli_PreEvaluation_all_succeeded)
    show ?thesis
      unfolding eq by (rule body) simp_all
  next
    case True
    let ?w2 = "w\<lparr>wli_TraceId := appv_TraceId a\<rparr>"
    have s2: "wli_IsPreDeploymentSucceeded ?w2" "wli_IsPreDeploymentEvaluationSucceeded ?w2"
      "wli_IsDeploymentSucceeded ?w2" "wli_IsPostDeploymentSucceeded ?w2"
      "wli_IsPostDeploymentEvaluationSucceeded ?w2"
      using assms(2-6) by (simp_all add: wli_accessor_defs)
    show ?thesis
    proof (cases "wli_Update env ?w2")
      case (Some e)
      then have eq: "wli_PreDeployment env ph r w a span =
          \<lparr>res = \<lparr>Requeue = False, RequeueAfter = 0\<rparr>, err = Some e, obj = ?w2,
           spans = r, effects = [StatusUpdate ?w2]\<rparr>"
        using p True by (simp add: wli_PreDeployment_def Let_def split_beta)
      show ?thesis
        unfolding eq using Some by auto
    next
      case None
      then have eq: "wli_PreDeployment env ph r w a span =
          prepend ([StatusUpdate ?w2] @ snd (wli_Started r ?w2 a (PhaseWorkloadPreDeployment ph)))
            (wli_Completed env ph (fst (wli_Started r ?w2 a (PhaseWorkloadPreDeployment ph)))
               ?w2 span)"
        using p True s2
        by (simp add: wli_PreDeployment_def Let_def split_beta wli_PreEvaluation_all_succeeded
              prepend_def)
      show ?thesis
        unfolding eq by (rule body) simp_all
    qed
  qed
qed

lemma appv_Completed_again:
  assumes "appv_EndTime a \<noteq> None"
  shows "(\<forall>x\<in>set (status_writes (effects (appv_Completed env ph r a span))). x = a) \<and>
         callbacks (effects (appv_Completed env ph r a span)) = [] \<and>
         (err (appv_Completed env ph r a span) = None \<longrightarrow>
            counter_samples (effects (appv_Completed env ph r a span)) = [a] \<and>
            duration_samples (effects (appv_Completed env ph r a span))
              = [(appv_EndTime a, appv_StartTime a)]) \<and>
         ((\<forall>x. appv_Update env x = None) \<longrightarrow> err (appv_Completed env ph r a span) = None)"
  using assms
  by (cases "appv_Update env a")
     (simp_all add: appv_Completed_def appv_IsEndTimeSet_def Let_def appv_recordEvent_def)

text \<open>
  C2, as the code has it. Take an entity of either kind whose phase accessors all report
  succeeded and whose \<open>StartTime\<close> and \<open>EndTime\<close> are set, and for a workload instance
  let the gate clear. A further reconcile invokes no callback and writes the status back as
  it was (for the workload instance the written entity differs from the fetched one at most
  in the trace id copied into its spec). The counter and the duration meter are not guarded
  by \<^verbatim>\<open>IsEndTimeSet\<close>: whenever the reconcile returns without error, and it does when the
  status writes succeed, it adds one more counter sample and records the duration
  \<open>EndTime - StartTime\<close> once more.
\<close>

theorem completed_reconcile_emits_again:
  "(wli_Get env = GetOk w0 \<and> wli_StartTime w0 \<noteq> None \<and> wli_EndTime w0 \<noteq> None \<and>
    wli_IsPreDeploymentSucceeded w0 \<and> wli_IsPreDeploymentEvaluationSucceeded w0 \<and>
    wli_IsDeploymentSucceeded w0 \<and> wli_IsPostDeploymentSucceeded w0 \<and>
    wli_IsPostDeploymentEvaluationSucceeded w0 \<and>
    wli_getAppVersionForWorkloadInstance env w0 = (True, a, None) \<and>
    appv_PreDeploymentEvaluationStatus a = StateSucceeded \<longrightarrow>
      (\<forall>x\<in>set (status_writes (effects (wli_Reconcile env ph r))).
         x\<lparr>wli_TraceId := wli_TraceId w0\<rparr> = w0) \<and>
      callbacks (effects (wli_Reconcile env ph r)) = [] \<and>
      (err (wli_Reconcile env ph r) = None \<longrightarrow>
         map (\<lambda>x. x\<lparr>wli_TraceId := wli_TraceId w0\<rparr>)
           (counter_samples (effects (wli_Reconcile env ph r))) = [w0] \<and>
         duration_samples (effects (wli_Reconcile env ph r))
           = [(wli_EndTime w0, wli_StartTime w0)]) \<and>
      ((\<forall>x. wli_Update env x = None) \<longrightarrow> err (wli_Reconcile env ph r) = None))
   \<and>
   (appv_Get env' = GetOk a0 \<and> appv_StartTime a0 \<noteq> None \<and> appv_EndTime a0 \<noteq> None \<and>
    appv_IsPreDeploymentSucceeded a0 \<and> appv_IsPreDeploymentEvaluationSucceeded a0 \<and>
    appv_AreWorkloadsSucceeded a0 \<and> appv_IsPostDeploymentSucceeded a0 \<and>
    appv_IsPostDeploymentEvaluationCompleted env' a0 \<longrightarrow>
      (\<forall>x\<in>set (status_writes (effects (appv_Reconcile env' ph r))). x = a0) \<and>
      callbacks (effects (appv_Reconcile env' ph r)) = [] \<and>
      (err (appv_Reconcile env' ph r) = None \<longrightarrow>
         counter_samples (effects (appv_Reconcile env' ph r)) = [a0] \<and>
         duration_samples (effects (appv_Reconcile env' ph r))
           = [(appv_EndTime a0, appv_StartTime a0)]) \<and>
      ((\<forall>x. appv_Update env' x = None) \<longrightarrow> err (appv_Reconcile env' ph r) = None))"
proof (rule conjI; rule impI; elim conjE)
  assume g: "wli_Get env = GetOk w0" and st: "wli_StartTime w0 \<noteq> None"
    and et: "wli_EndTime w0 \<noteq> None"
    and s: "wli_IsPreDeploymentSucceeded w0" "wli_IsPreDeploymentEvaluationSucceeded w0"
      "wli_IsDeploymentSucceeded w0" "wli_IsPostDeploymentSucceeded w0"
      "wli_IsPostDeploymentEvaluationSucceeded w0"
    and rs: "wli_getAppVersionForWorkloadInstance env w0 = (True, a, None)"
    and ps: "appv_PreDeploymentEvaluationStatus a = StateSucceeded"
  have w: "wli_SetStartTime (wli_now env) w0 = w0"
    using st by (simp add: wli_SetStartTime_def)
  have eq: "wli_Reconcile env ph r =
      (wli_PreDeployment env ph r w0 a ''reconcile_workload_instance'')
        \<lparr>effects := SpanStart ''reconcile_workload_instance'' #
           effects (wli_PreDeployment env ph r w0 a ''reconcile_workload_instance'')
           @ [SpanEnd ''reconcile_workload_instance'']\<rparr>"
    using g rs ps by (simp add: wli_Reconcile_def w Let_def IsSucceeded_def)
  show "(\<forall>x\<in>set (status_writes (effects (wli_Reconcile env ph r))).
         x\<lparr>wli_TraceId := wli_TraceId w0\<rparr> = w0) \<and>
      callbacks (effects (wli_Reconcile env ph r)) = [] \<and>
      (err (wli_Reconcile env ph r) = None \<longrightarrow>
         map (\<lambda>x. x\<lparr>wli_TraceId := wli_TraceId w0\<rparr>)
           (counter_samples (effects (wli_Reconcile env ph r))) = [w0] \<and>
         duration_samples (effects (wli_Reconcile env ph r))
           = [(wli_EndTime w0, wli_StartTime w0)]) \<and>
      ((\<forall>x. wli_Update env x = None) \<longrightarrow> err (wli_Reconcile env ph r) = None)"
    unfolding eq
    using wli_PreDeployment_again [OF et s, of env ph r a "''reconcile_workload_instance''"]
    by simp
next
  assume g: "appv_Get env' = GetOk a0" and st: "appv_StartTime a0 \<noteq> None"
    and et: "appv_EndTime a0 \<noteq> None"
    and s: "appv_IsPreDeploymentSucceeded a0" "appv_IsPreDeploymentEvaluationSucceeded a0"
      "appv_AreWorkloadsSucceeded a0" "appv_IsPostDeploymentSucceeded a0"
      "appv_IsPostDeploymentEvaluationCompleted env' a0"
  have a: "appv_SetStartTime (appv_now env') a0 = a0"
    using st by (simp add: appv_SetStartTime_def)
  have eq: "appv_Reconcile env' ph r =
      (prepend (snd (appv_Started r a0 (PhaseAppPreDeployment ph)))
         (appv_Completed env' ph (fst (appv_Started r a0 (PhaseAppPreDeployment ph))) a0
            ''reconcile_app_version''))
        \<lparr>effects := SpanStart ''reconcile_app_version'' #
           effects (prepend (snd (appv_Started r a0 (PhaseAppPreDeployment ph)))
             (appv_Completed env' ph (fst (appv_Started r a0 (PhaseAppPreDeployment ph))) a0
                ''reconcile_app_version''))
           @ [SpanEnd ''reconcile_app_version'']\<rparr>"
    using g s by (simp add: appv_Reconcile_def appv_Phases_def a Let_def split_beta)
  show "(\<forall>x\<in>set (status_writes (effects (appv_Reconcile env' ph r))). x = a0) \<and>
      callbacks (effects (appv_Reconcile env' ph r)) = [] \<and>
      (err (appv_Reconcile env' ph r) = None \<longrightarrow>
         counter_samples (effects (appv_Reconcile env' ph r)) = [a0] \<and>
         duration_samples (effects (appv_Reconcile env' ph r))
           = [(appv_EndTime a0, appv_StartTime a0)]) \<and>
      ((\<forall>x. appv_Update env' x = None) \<longrightarrow> err (appv_Reconcile env' ph r) = None)"
    unfolding eq
    using appv_Completed_again [OF et, of env' ph
        "fst (appv_Started r a0 (PhaseAppPreDeployment ph))" "''reconcile_app_version''"]
    by simp
qed


theorem completed_reconcile_emits_again_witness:
  "wli_Get (example_wli_env example_wli_completed [example_appv ''1.2.0''] StateSucceeded)
     = GetOk example_wli_completed \<and>
   wli_Status example_wli_completed = StateSucceeded \<and>
   wli_StartTime example_wli_completed = Some 50 \<and>
   wli_EndTime example_wli_completed = Some 90 \<and>
   wli_IsPreDeploymentSucceeded example_wli_completed \<and>
   wli_IsPreDeploymentEvaluationSucceeded example_wli_completed \<and>
   wli_IsDeploymentSucceeded example_wli_completed \<and>
   wli_IsPostDeploymentSucceeded example_wli_completed \<and>
   wli_IsPostDeploymentEvaluationSucceeded example_wli_completed \<and>
   wli_getAppVersionForWorkloadInstance
     (example_wli_env example_wli_completed [example_appv ''1.2.0''] StateSucceeded)
     example_wli_completed = (True, example_appv ''1.2.0'', None) \<and>
   err (wli_Reconcile (example_wli_env example_wli_completed [example_appv ''1.2.0''] StateSucceeded)
          example_phases Map.empty) = None \<and>
   map (\<lambda>x. x\<lparr>wli_TraceId := wli_TraceId example_wli_completed\<rparr>)
     (counter_samples (effects
        (wli_Reconcile (example_wli_env example_wli_completed [example_appv ''1.2.0''] StateSucceeded)
           example_phases Map.empty)))
     = [example_wli_completed] \<and>
   duration_samples (effects
     (wli_Reconcile (example_wli_env example_wli_completed [example_appv ''1.2.0''] StateSucceeded)
        example_phases Map.empty))
     = [(Some 90, Some 50)] \<and>
   appv_Get (example_appv_env example_appv_completed StateSucceeded) = GetOk example_appv_completed \<and>
   appv_Status example_appv_completed = StateSucceeded \<and>
   appv_IsPostDeploymentEvaluationCompleted (example_appv_env example_appv_completed StateSucceeded)
     example_appv_completed \<and>
   err (appv_Reconcile (example_appv_env example_appv_completed StateSucceeded)
          example_phases Map.empty) = None \<and>
   counter_samples (effects
     (appv_Reconcile (example_appv_env example_appv_completed StateSucceeded)
        example_phases Map.empty))
     = [example_appv_completed] \<and>
   duration_samples (effects
     (appv_Reconcile (example_appv_env example_appv_completed StateSucceeded)
        example_phases Map.empty))
     = [(Some 95, Some 40)]"
proof -
  let ?E = "example_wli_env example_wli_completed [example_appv ''1.2.0''] StateSucceeded"
  let ?E' = "example_appv_env example_appv_completed StateSucceeded"
  have g: "wli_Get ?E = GetOk example_wli_completed" "\<forall>x. wli_Update ?E x = None"
    by (simp_all add: example_wli_env_def)
  have w: "wli_Status example_wli_completed = StateSucceeded"
    "wli_StartTime example_wli_completed = Some 50"
    "wli_EndTime example_wli_completed = Some 90"
    "wli_IsPreDeploymentSucceeded example_wli_completed"
    "wli_IsPreDeploymentEvaluationSucceeded example_wli_completed"
    "wli_IsDeploymentSucceeded example_wli_completed"
    "wli_IsPostDeploymentSucceeded example_wli_completed"
    "wli_IsPostDeploymentEvaluationSucceeded example_wli_completed"
    by (simp_all add: example_wli_completed_def wli_accessor_defs)
  have rs: "wli_getAppVersionForWorkloadInstance ?E example_wli_completed
              = (True, example_appv ''1.2.0'', None)"
    by (simp add: wli_resolver_defs example_defs example_wli_completed_def)
  have ps: "appv_PreDeploymentEvaluationStatus (example_appv ''1.2.0'') = StateSucceeded"
    by (simp add: example_appv_def)
  have g': "appv_Get ?E' = GetOk example_appv_completed" "\<forall>x. appv_Update ?E' x = None"
    by (simp_all add: example_appv_env_def)
  have a: "appv_Status example_appv_completed = StateSucceeded"
    "appv_StartTime example_appv_completed = Some 40"
    "appv_EndTime example_appv_completed = Some 95"
    "appv_IsPreDeploymentSucceeded example_appv_completed"
    "appv_IsPreDeploymentEvaluationSucceeded example_appv_completed"
    "appv_AreWorkloadsSucceeded example_appv_completed"
    "appv_IsPostDeploymentSucceeded example_appv_completed"
    "appv_IsPostDeploymentEvaluationCompleted ?E' example_appv_completed"
    by (simp_all add: example_appv_completed_def example_appv_def example_appv_env_def
          appv_accessor_defs)
  show ?thesis
    using g w rs ps g' a
      completed_reconcile_emits_again [of ?E example_wli_completed "example_appv ''1.2.0''"
        example_phases Map.empty ?E' example_appv_completed]
    by simp
qed

text \<open>
  A completed workload instance and a completed application version, reconciled once more:
  each run samples the counter and the duration again.
\<close>

theorem completed_reconcile_counterexample:
  "wli_Status example_wli_completed = StateSucceeded \<and>
   wli_IsPreDeploymentSucceeded example_wli_completed \<and>
   wli_IsPreDeploymentEvaluationSucceeded example_wli_completed \<and>
   wli_IsDeploymentSucceeded example_wli_completed \<and>
   wli_IsPostDeploymentSucceeded example_wli_completed \<and>
   wli_IsPostDeploymentEvaluationSucceeded example_wli_completed \<and>
   wli_Get (example_wli_env example_wli_completed [example_appv ''1.2.0''] StateSucceeded)
     = GetOk example_wli_completed \<and>
   status_writes (effects
     (wli_Reconcile (example_wli_env example_wli_completed [example_appv ''1.2.0''] StateSucceeded)
        example_phases Map.empty))
     = [example_wli_completed] \<and>
   counter_samples (effects
     (wli_Reconcile (example_wli_env example_wli_completed [example_appv ''1.2.0''] StateSucceeded)
        example_phases Map.empty))
     = [example_wli_completed] \<and>
   duration_samples (effects
     (wli_Reconcile (example_wli_env example_wli_completed [example_appv ''1.2.0''] StateSucceeded)
        example_phases Map.empty))
     = [(Some 90, Some 50)] \<and>
   appv_Status example_appv_completed = StateSucceeded \<and>
   appv_Get (example_appv_env example_appv_completed StateSucceeded) = GetOk example_appv_completed \<and>
   counter_samples (effects
     (appv_Reconcile (example_appv_env example_appv_completed StateSucceeded)
        example_phases Map.empty))
     = [example_appv_completed] \<and>
   duration_samples (effects
     (appv_Reconcile (example_appv_env example_appv_completed StateSucceeded)
        example_phases Map.empty))
     = [(Some 95, Some 40)]"
proof -
  have w: "wli_Status example_wli_completed = StateSucceeded \<and>
   wli_IsPreDeploymentSucceeded example_wli_completed \<and>
   wli_IsPreDeploymentEvaluationSucceeded example_wli_completed \<and>
   wli_IsDeploymentSucceeded example_wli_completed \<and>
   wli_IsPostDeploymentSucceeded example_wli_completed \<and>
   wli_IsPostDeploymentEvaluationSucceeded example_wli_completed \<and>
   appv_Status example_appv_completed = StateSucceeded"
    by (simp add: example_wli_completed_def example_appv_completed_def wli_accessor_defs)
  have g: "wli_Get (example_wli_env example_wli_completed [example_appv ''1.2.0''] StateSucceeded)
     = GetOk example_wli_completed"
    "appv_Get (example_appv_env example_appv_completed StateSucceeded) = GetOk example_appv_completed"
    by (simp_all add: example_wli_env_def example_appv_env_def)
  have e: "effects (wli_Reconcile
       (example_wli_env example_wli_completed [example_appv ''1.2.0''] StateSucceeded)
       example_phases Map.empty)
     = [SpanStart ''reconcile_workload_instance'', StatusUpdate example_wli_completed,
        CounterAdd example_wli_completed,
        DurationRecord (Some 90) (Some 50) example_wli_completed,
        wli_recordEvent (PhaseAppPostEvaluation example_phases) ''Normal'' example_wli_completed
          ''Finished'' ''is finished'',
        SpanEnd ''reconcile_workload_instance'']"
    by (simp add: wli_Reconcile_def wli_part_defs wli_accessor_defs wli_resolver_defs
          example_wli_env_def example_wli_completed_def example_wli_def example_appv_def Let_def)
  have e': "effects (appv_Reconcile (example_appv_env example_appv_completed StateSucceeded)
       example_phases Map.empty)
     = [SpanStart ''reconcile_app_version'',
        appv_recordEvent (PhaseAppPostEvaluation example_phases) ''Normal'' example_appv_completed
          ''Finished'' ''is finished'',
        StatusUpdate example_appv_completed, StatusUpdate example_appv_completed,
        CounterAdd example_appv_completed,
        DurationRecord (Some 95) (Some 40) example_appv_completed,
        SpanEnd ''reconcile_app_version'']"
    by (simp add: appv_Reconcile_def appv_Phases_def appv_Started_def appv_Completed_def
          appv_accessor_defs example_appv_env_def example_appv_completed_def example_appv_def
          Let_def)
  show ?thesis
    unfolding e e' using w g by (simp add: wli_recordEvent_def appv_recordEvent_def)
qed

subsection \<open>The first reconcile\<close>

text \<open>
  C8. The workload-instance reconcile guards its "Started" block by the current phase of the
  application version that the gate resolved, not by the instance's own. A workload instance
  reconciled for the first time (own current phase empty, start time unset) below an
  application version that is at its deployment phase gets its start time stamped and the
  span of its first phase opened by the driver, but no "Started" event: the only event is
  the driver's "NotFinished". A workload instance that is already deploying does get a
  "Started" event when the application version's current phase is empty. The
  application-version reconcile tests the entity's own current phase and emits "Started" on
  its first reconcile.
\<close>

theorem first_reconcile_started_event:
  "wli_CurrentPhase example_wli = [] \<and>
   wli_StartTime example_wli = None \<and>
   appv_CurrentPhase (example_appv ''1.2.0'') = ''AppDeploy'' \<and>
   wli_Get (example_wli_env example_wli [example_appv ''1.2.0''] StateProgressing)
     = GetOk example_wli \<and>
   events (effects (wli_Reconcile
      (example_wli_env example_wli [example_appv ''1.2.0''] StateProgressing)
      example_phases Map.empty))
     = [(''Warning'', ''NotFinished'')] \<and>
   map fst (callbacks (effects (wli_Reconcile
      (example_wli_env example_wli [example_appv ''1.2.0''] StateProgressing)
      example_phases Map.empty)))
     = [PhaseWorkloadPreDeployment example_phases] \<and>
   map wli_StartTime (status_writes (effects (wli_Reconcile
      (example_wli_env example_wli [example_appv ''1.2.0''] StateProgressing)
      example_phases Map.empty)))
     = [Some 100, Some 100] \<and>
   span_starts (effects (wli_Reconcile
      (example_wli_env example_wli [example_appv ''1.2.0''] StateProgressing)
      example_phases Map.empty))
     = [''reconcile_workload_instance'', ''podtato-head-entry/WorkloadPreDeployTasks''] \<and>
   wli_CurrentPhase example_wli_deploying = ''WorkloadDeploy'' \<and>
   events (effects (wli_Reconcile
      (example_wli_env example_wli_deploying
         [(example_appv ''1.2.0'')\<lparr>appv_CurrentPhase := []\<rparr>] StateProgressing)
      example_phases Map.empty))
     = [(''Normal'', ''Started''), (''Warning'', ''NotFinished'')] \<and>
   appv_CurrentPhase example_appv_fresh = [] \<and>
   events (effects (appv_Reconcile (example_appv_env example_appv_fresh StateProgressing)
      example_phases Map.empty))
     = [(''Normal'', ''Started''), (''Warning'', ''NotFinished'')]"
proof -
  have w: "wli_CurrentPhase example_wli = []" "wli_StartTime example_wli = None"
    "appv_CurrentPhase (example_appv ''1.2.0'') = ''AppDeploy''"
    "wli_CurrentPhase example_wli_deploying = ''WorkloadDeploy''"
    "appv_CurrentPhase example_appv_fresh = []"
    "wli_Get (example_wli_env example_wli [example_appv ''1.2.0''] StateProgressing)
       = GetOk example_wli"
    by (simp_all add: example_wli_def example_appv_def example_wli_deploying_def
          example_appv_fresh_def example_wli_env_def)
  have e1: "effects (wli_Reconcile
      (example_wli_env example_wli [example_appv ''1.2.0''] StateProgressing)
      example_phases Map.empty)
    = [SpanStart ''reconcile_workload_instance'',
       StatusUpdate (example_wli
         \<lparr>wli_StartTime := Some 100, wli_PreDeploymentStatus := StateProgressing,
          wli_TraceId := [(''traceparent'', ''00-0af7651916cd43dd-b7ad6b7169203331-01'')]\<rparr>),
       SpanStart ''podtato-head-entry/WorkloadPreDeployTasks'',
       ReconcilePhase (PhaseWorkloadPreDeployment example_phases)
         (example_wli
           \<lparr>wli_StartTime := Some 100, wli_PreDeploymentStatus := StateProgressing,
            wli_TraceId := [(''traceparent'', ''00-0af7651916cd43dd-b7ad6b7169203331-01'')],
            wli_CurrentPhase := ''WorkloadPreDeployTasks''\<rparr>),
       SpanAddEvent ''podtato-head-entry/WorkloadPreDeployTasks''
         ''Workload Pre-Deployment Tasks not finished'',
       Event ''Warning'' ''WorkloadPreDeployTasks'' ''NotFinished''
         ''Workload Pre-Deployment Tasks has not finished / Namespace: default, Name: podtato-head-entry-0.1.0, Version: 0.1.0 '',
       StatusUpdate (example_wli
           \<lparr>wli_StartTime := Some 100, wli_PreDeploymentStatus := StateProgressing,
            wli_TraceId := [(''traceparent'', ''00-0af7651916cd43dd-b7ad6b7169203331-01'')],
            wli_CurrentPhase := ''WorkloadPreDeployTasks'', wli_Status := StateProgressing\<rparr>),
       SpanEnd ''reconcile_workload_instance'']"
    by (simp add: wli_Reconcile_defs example_defs Let_def)
  have e2: "events (effects (wli_Reconcile
      (example_wli_env example_wli_deploying
         [(example_appv ''1.2.0'')\<lparr>appv_CurrentPhase := []\<rparr>] StateProgressing)
      example_phases Map.empty))
     = [(''Normal'', ''Started''), (''Warning'', ''NotFinished'')]"
    by (simp add: wli_Reconcile_defs example_defs example_wli_deploying_def Let_def)
  have e3: "events (effects (appv_Reconcile (example_appv_env example_appv_fresh StateProgressing)
      example_phases Map.empty))
     = [(''Normal'', ''Started''), (''Warning'', ''NotFinished'')]"
    by (simp add: appv_Reconcile_defs example_defs example_appv_fresh_def Let_def)
  show ?thesis
    unfolding e1 using w e2 e3 by (simp add: example_wli_def)
qed

subsection \<open>The end time and the overall status\<close>

lemma appv_handlePhase_succeeded:
  "appv_Status (obj (appv_handlePhase env r a p span (\<lambda>a. False)
       (\<lambda>a. ((StateSucceeded, None), a)))) = StateSucceeded \<and>
   appv_EndTime (obj (appv_handlePhase env r a p span (\<lambda>a. False)
       (\<lambda>a. ((StateSucceeded, None), a)))) = appv_EndTime a"
  by (simp add: appv_handlePhase_def Let_def split_beta IsSucceeded_def)

lemma wli_handlePhase_succeeded:
  "wli_Status (obj (wli_handlePhase env r w p span (\<lambda>w. False)
       (\<lambda>w. ((StateSucceeded, None), w)))) = wli_Status w \<and>
   wli_EndTime (obj (wli_handlePhase env r w p span (\<lambda>w. False)
       (\<lambda>w. ((StateSucceeded, None), w)))) = wli_EndTime w"
  by (simp add: wli_handlePhase_def Let_def split_beta IsSucceeded_def)

text \<open>
  C3. In the application-version driver every succeeded phase sets the overall status to
  Succeeded and leaves \<open>EndTime\<close> as it was; the workload-instance driver leaves both
  alone on a succeeded phase. So an application version that was never reconciled, whose
  pre-deployment tasks succeed, is written with overall status Succeeded, current phase
  \<open>AppPreDeployTasks\<close> and no \<open>EndTime\<close>, four phases before its completion. A
  workload instance whose deployment succeeds is not written at all, and one whose phases
  have all succeeded gets status Succeeded and its \<open>EndTime\<close> in the same write.
\<close>

theorem phase_success_sets_overall_status:
  "appv_Status (obj (appv_handlePhase env r a p span (\<lambda>a. False)
       (\<lambda>a. ((StateSucceeded, None), a)))) = StateSucceeded \<and>
   appv_EndTime (obj (appv_handlePhase env r a p span (\<lambda>a. False)
       (\<lambda>a. ((StateSucceeded, None), a)))) = appv_EndTime a \<and>
   wli_Status (obj (wli_handlePhase env' r w p span (\<lambda>w. False)
       (\<lambda>w. ((StateSucceeded, None), w)))) = wli_Status w \<and>
   wli_EndTime (obj (wli_handlePhase env' r w p span (\<lambda>w. False)
       (\<lambda>w. ((StateSucceeded, None), w)))) = wli_EndTime w \<and>
   appv_Status example_appv_fresh = StatePending \<and>
   appv_EndTime example_appv_fresh = None \<and>
   status_writes (effects (appv_Reconcile (example_appv_env example_appv_fresh StateSucceeded)
      example_phases Map.empty))
     = [example_appv_fresh
          \<lparr>appv_StartTime := Some 100, appv_CurrentPhase := ''AppPreDeployTasks'',
           appv_Status := StateSucceeded\<rparr>] \<and>
   status_writes (effects (wli_Reconcile
      (example_wli_env example_wli_deploying [example_appv ''1.2.0''] StateSucceeded)
      example_phases Map.empty))
     = [] \<and>
   wli_Status example_wli_deploying = StateProgressing \<and>
   wli_EndTime example_wli_deploying = None \<and>
   wli_EndTime example_wli_finishing = None \<and>
   status_writes (effects (wli_Reconcile
      (example_wli_env example_wli_finishing [example_appv ''1.2.0''] StateSucceeded)
      example_phases Map.empty))
     = [example_wli_finishing
          \<lparr>wli_CurrentPhase := ''Completed'', wli_Status := StateSucceeded,
           wli_EndTime := Some 100\<rparr>]"
proof -
  have v: "appv_Status example_appv_fresh = StatePending" "appv_EndTime example_appv_fresh = None"
    "wli_Status example_wli_deploying = StateProgressing" "wli_EndTime example_wli_deploying = None"
    "wli_EndTime example_wli_finishing = None"
    by (simp_all add: example_appv_fresh_def example_appv_def example_wli_deploying_def
          example_wli_def example_wli_finishing_def)
  have e1: "status_writes (effects (appv_Reconcile
      (example_appv_env example_appv_fresh StateSucceeded) example_phases Map.empty))
     = [example_appv_fresh
          \<lparr>appv_StartTime := Some 100, appv_CurrentPhase := ''AppPreDeployTasks'',
           appv_Status := StateSucceeded\<rparr>]"
    by (simp add: appv_Reconcile_defs example_defs example_appv_fresh_def Let_def)
  have e2: "status_writes (effects (wli_Reconcile
      (example_wli_env example_wli_deploying [example_appv ''1.2.0''] StateSucceeded)
      example_phases Map.empty))
     = []"
    by (simp add: wli_Reconcile_defs example_defs example_wli_deploying_def Let_def)
  have e3: "status_writes (effects (wli_Reconcile
      (example_wli_env example_wli_finishing [example_appv ''1.2.0''] StateSucceeded)
      example_phases Map.empty))
     = [example_wli_finishing
          \<lparr>wli_CurrentPhase := ''Completed'', wli_Status := StateSucceeded,
           wli_EndTime := Some 100\<rparr>]"
    by (simp add: wli_Reconcile_def wli_part_defs wli_accessor_defs wli_resolver_defs
          wli_span_defs example_defs example_wli_completed_def example_wli_finishing_def Let_def)
  show ?thesis
    using appv_handlePhase_succeeded [of env r a p span]
      wli_handlePhase_succeeded [of env' r w p span] v e1 e2 e3
    by simp
qed

end
